theory Spec2Isabelle
  imports Main "HOL-Library.Char_ord" "HOL-Library.List_Lexorder"
begin

section \<open>JavaScript values\<close>

text \<open>
  The audit ledger hashes and stores values of TypeScript type \<^verbatim>\<open>any\<close>. They are modelled
  as a datatype of JavaScript values: numbers are integers (the hashed fields are block
  numbers, user ids and millisecond timestamps), strings are byte strings, and an object is
  the list of its own enumerable properties in property order, looked up with
  \<^const>\<open>map_of\<close>. \<open>JUndefined\<close> is the value of a declared but absent optional argument
  such as \<^verbatim>\<open>userId?: number\<close>. The integers meant are those that JavaScript prints in plain
  decimal digits, below \<open>10\<^sup>2\<^sup>1\<close> in absolute value.
\<close>

datatype jsval =
    JUndefined
  | JNull
  | JBool bool
  | JNum int
  | JStr string
  | JArr "jsval list"
  | JObj "(string \<times> jsval) list"

text \<open>
  Every \<^verbatim>\<open>throw\<close> of the two services and every exception the modelled built-ins can
  raise is a value: \<open>TypeError\<close> for \<^verbatim>\<open>Object.keys(null)\<close> and for a property read on
  \<^verbatim>\<open>null\<close> or \<^verbatim>\<open>undefined\<close>, \<open>IntegrityError\<close> for the error thrown by
  \<^verbatim>\<open>createSecurityTransaction\<close>, \<open>ConfigurationError\<close> for a missing encryption key,
  \<open>MalformedData\<close> for a failed decryption. An insert that the database refuses rejects
  with \<open>ForeignKeyViolation\<close>, when the row names a user that is not there, or with
  \<open>InvalidInteger\<close>, when \<^verbatim>\<open>NaN\<close> is given for an integer column.
\<close>

datatype error =
    TypeError
  | IntegrityError
  | ConfigurationError
  | MalformedData
  | ForeignKeyViolation
  | InvalidInteger

subsection \<open>Number and string conversion\<close>

fun show_nat :: "nat \<Rightarrow> string" where
  "show_nat n =
     (if n < 10 then [''0123456789'' ! n]
      else show_nat (n div 10) @ [''0123456789'' ! (n mod 10)])"

declare show_nat.simps [simp del]

text \<open>\<^verbatim>\<open>Number.prototype.toString\<close> and template-literal conversion, on integers.\<close>

definition show_int :: "int \<Rightarrow> string" where
  "show_int i = (if i < 0 then ''-'' @ show_nat (nat (- i)) else show_nat (nat i))"

text \<open>\<^verbatim>\<open>String.prototype.includes\<close>.\<close>

fun starts_with :: "string \<Rightarrow> string \<Rightarrow> bool" where
  "starts_with s [] = True"
| "starts_with [] (c # cs) = False"
| "starts_with (d # ds) (c # cs) = (d = c \<and> starts_with ds cs)"

fun string_includes :: "string \<Rightarrow> string \<Rightarrow> bool" where
  "string_includes [] sub = (sub = [])"
| "string_includes (c # cs) sub = (starts_with (c # cs) sub \<or> string_includes cs sub)"

text \<open>\<^verbatim>\<open>Array.prototype.join\<close> with a separator.\<close>

fun join_with :: "string \<Rightarrow> string list \<Rightarrow> string" where
  "join_with sep [] = []"
| "join_with sep [x] = x"
| "join_with sep (x # y # ys) = x @ sep @ join_with sep (y # ys)"

text \<open>
  \<^verbatim>\<open>parseInt(s)\<close> with the default radix: leading white space, an optional sign, an
  optional \<^verbatim>\<open>0x\<close> prefix, then the longest run of digits; \<open>None\<close> is \<^verbatim>\<open>NaN\<close>.
\<close>

definition is_space :: "char \<Rightarrow> bool" where
  "is_space c = (c \<in> set [CHR 0x09, CHR 0x0A, CHR 0x0B, CHR 0x0C, CHR 0x0D, CHR 0x20])"

definition digit_value :: "char \<Rightarrow> nat option" where
  "digit_value c =
     (let n = (of_char c :: nat) in
      if 48 \<le> n \<and> n \<le> 57 then Some (n - 48)
      else if 97 \<le> n \<and> n \<le> 102 then Some (n - 87)
      else if 65 \<le> n \<and> n \<le> 70 then Some (n - 55)
      else None)"

definition is_digit :: "nat \<Rightarrow> char \<Rightarrow> bool" where
  "is_digit radix c = (case digit_value c of None \<Rightarrow> False | Some v \<Rightarrow> v < radix)"

definition parse_digits :: "nat \<Rightarrow> string \<Rightarrow> int option" where
  "parse_digits radix s =
     (let ds = takeWhile (is_digit radix) s in
      if ds = [] then None
      else Some (int (foldl (\<lambda>a c. radix * a + the (digit_value c)) 0 ds)))"

definition parseInt :: "string \<Rightarrow> int option" where
  "parseInt s =
     (let t = dropWhile is_space s;
          neg = starts_with t ''-'';
          u = (if starts_with t ''-'' \<or> starts_with t ''+'' then tl t else t);
          m = (if starts_with u ''0x'' \<or> starts_with u ''0X''
               then parse_digits 16 (drop 2 u) else parse_digits 10 u)
      in map_option (\<lambda>v. if neg then - v else v) m)"

subsection \<open>JSON.stringify with an array replacer\<close>

text \<open>
  \<^verbatim>\<open>QuoteJSONString\<close>: the two-character escapes, \<^verbatim>\<open>\u00XX\<close> for the other control
  characters, every other character as it is.
\<close>

definition escape_char :: "char \<Rightarrow> string" where
  "escape_char c =
     (if c = CHR 0x08 then [CHR 0x5C, CHR ''b'']
      else if c = CHR 0x09 then [CHR 0x5C, CHR ''t'']
      else if c = CHR 0x0A then [CHR 0x5C, CHR ''n'']
      else if c = CHR 0x0C then [CHR 0x5C, CHR ''f'']
      else if c = CHR 0x0D then [CHR 0x5C, CHR ''r'']
      else if c = CHR 0x22 then [CHR 0x5C, CHR 0x22]
      else if c = CHR 0x5C then [CHR 0x5C, CHR 0x5C]
      else if (of_char c :: nat) < 32
        then [CHR 0x5C, CHR ''u'', CHR ''0'', CHR ''0'',
              ''0123456789abcdef'' ! ((of_char c :: nat) div 16),
              ''0123456789abcdef'' ! ((of_char c :: nat) mod 16)]
      else [c])"

definition QuoteJSONString :: "string \<Rightarrow> string" where
  "QuoteJSONString s = [CHR 0x22] @ concat (map escape_char s) @ [CHR 0x22]"

text \<open>
  The replacer of \<^verbatim>\<open>JSON.stringify(value, replacer)\<close> is an array of strings here. The
  standard turns it into the property list: the strings of the array in order, each kept
  once.
\<close>

definition propertyList :: "string list \<Rightarrow> string list" where
  "propertyList replacer =
     fold (\<lambda>item acc. if item \<in> set acc then acc else acc @ [item]) replacer []"

text \<open>
  \<^verbatim>\<open>SerializeJSONProperty\<close>, \<^verbatim>\<open>SerializeJSONArray\<close> and \<^verbatim>\<open>SerializeJSONObject\<close> with a
  property list \<open>K\<close> and no indentation. \<open>None\<close> is the result \<^verbatim>\<open>undefined\<close>. An object,
  at every depth, is serialised by going through \<open>K\<close> in order: the property named by the
  entry is read, and the member is written when its serialisation is defined. An array
  writes \<^verbatim>\<open>null\<close> for an element whose serialisation is undefined.
\<close>

fun SerializeJSONProperty :: "string list \<Rightarrow> jsval \<Rightarrow> string option"
  and SerializeJSONArray :: "string list \<Rightarrow> jsval list \<Rightarrow> string list"
  and SerializeJSONMembers :: "string list \<Rightarrow> (string \<times> jsval) list \<Rightarrow> (string \<times> string option) list"
where
  "SerializeJSONProperty K JUndefined = None"
| "SerializeJSONProperty K JNull = Some ''null''"
| "SerializeJSONProperty K (JBool b) = Some (if b then ''true'' else ''false'')"
| "SerializeJSONProperty K (JNum n) = Some (show_int n)"
| "SerializeJSONProperty K (JStr s) = Some (QuoteJSONString s)"
| "SerializeJSONProperty K (JArr xs) =
     Some (''['' @ join_with '','' (SerializeJSONArray K xs) @ '']'')"
| "SerializeJSONProperty K (JObj kvs) =
     Some (''{'' @ join_with '',''
        (List.map_filter
           (\<lambda>P. case map_of (SerializeJSONMembers K kvs) P of
                  Some (Some strP) \<Rightarrow> Some (QuoteJSONString P @ '':'' @ strP)
                | _ \<Rightarrow> None) K) @ ''}'')"
| "SerializeJSONArray K [] = []"
| "SerializeJSONArray K (v # vs) =
     (case SerializeJSONProperty K v of None \<Rightarrow> ''null'' | Some strP \<Rightarrow> strP)
       # SerializeJSONArray K vs"
| "SerializeJSONMembers K [] = []"
| "SerializeJSONMembers K ((k, v) # kvs) =
     (k, SerializeJSONProperty K v) # SerializeJSONMembers K kvs"

definition JSON_stringify :: "jsval \<Rightarrow> string list \<Rightarrow> string option" where
  "JSON_stringify v replacer = SerializeJSONProperty (propertyList replacer) v"

text \<open>
  \<^verbatim>\<open>Object.keys\<close>: it throws on \<^verbatim>\<open>null\<close> and \<^verbatim>\<open>undefined\<close>, a number or a boolean has
  no own keys, a string and an array have their indices.
\<close>

definition Object_keys :: "jsval \<Rightarrow> error + string list" where
  "Object_keys v =
     (case v of
        JUndefined \<Rightarrow> Inl TypeError
      | JNull \<Rightarrow> Inl TypeError
      | JBool b \<Rightarrow> Inr []
      | JNum n \<Rightarrow> Inr []
      | JStr s \<Rightarrow> Inr (map show_nat [0..<length s])
      | JArr xs \<Rightarrow> Inr (map show_nat [0..<length xs])
      | JObj kvs \<Rightarrow> Inr (remdups (map fst kvs)))"

text \<open>
  A property read \<^verbatim>\<open>v.name\<close>, for a name that is no built-in property, and the
  truthiness of a value in a condition.
\<close>

definition get_property :: "jsval \<Rightarrow> string \<Rightarrow> error + jsval" where
  "get_property v name =
     (case v of
        JUndefined \<Rightarrow> Inl TypeError
      | JNull \<Rightarrow> Inl TypeError
      | JObj kvs \<Rightarrow> Inr (case map_of kvs name of None \<Rightarrow> JUndefined | Some x \<Rightarrow> x)
      | _ \<Rightarrow> Inr JUndefined)"

definition truthy :: "jsval \<Rightarrow> bool" where
  "truthy v =
     (case v of
        JUndefined \<Rightarrow> False
      | JNull \<Rightarrow> False
      | JBool b \<Rightarrow> b
      | JNum n \<Rightarrow> n \<noteq> 0
      | JStr s \<Rightarrow> s \<noteq> []
      | _ \<Rightarrow> True)"

subsection \<open>A value stored as JSON\<close>

text \<open>
  A value written to a \<^verbatim>\<open>jsonb\<close> column is sent as its JSON text and comes back parsed
  from it: \<^verbatim>\<open>JSON.parse(JSON.stringify(v))\<close>. A member of an object whose value is
  \<^verbatim>\<open>undefined\<close> is not written, so the object read back has no such key; an element of an
  array that is \<^verbatim>\<open>undefined\<close> comes back as \<^verbatim>\<open>null\<close>. Of two entries of the list with
  the same key an object has the first, as \<^const>\<open>map_of\<close> reads it; \<open>seen\<close> are the keys
  gone through.
\<close>

fun jsonb :: "jsval \<Rightarrow> jsval"
  and jsonb_members :: "string list \<Rightarrow> (string \<times> jsval) list \<Rightarrow> (string \<times> jsval) list"
where
  "jsonb JUndefined = JNull"
| "jsonb JNull = JNull"
| "jsonb (JBool b) = JBool b"
| "jsonb (JNum n) = JNum n"
| "jsonb (JStr s) = JStr s"
| "jsonb (JArr xs) = JArr (map jsonb xs)"
| "jsonb (JObj kvs) = JObj (jsonb_members [] kvs)"
| "jsonb_members seen [] = []"
| "jsonb_members seen ((k, v) # kvs) =
     (if k \<in> set seen \<or> v = JUndefined then [] else [(k, jsonb v)])
       @ jsonb_members (k # seen) kvs"

section \<open>BlockchainService: the transaction digest\<close>

text \<open>
  \<^verbatim>\<open>generateTransactionHash(data)\<close> is
  \<^verbatim>\<open>CryptoJS.SHA256(JSON.stringify(data, Object.keys(data).sort())).toString(Hex)\<close>.
  The digest of the library is the parameter \<open>H\<close>; every statement below holds for any
  function \<open>H\<close>. The sort is the default sort of an array of strings, by code units.
\<close>

definition generateTransactionHash :: "(string \<Rightarrow> string) \<Rightarrow> jsval \<Rightarrow> error + string" where
  "generateTransactionHash H d =
     (case Object_keys d of
        Inl e \<Rightarrow> Inl e
      | Inr ks \<Rightarrow>
          (case JSON_stringify d (sort ks) of
             None \<Rightarrow> Inl TypeError
           | Some dataString \<Rightarrow> Inr (H dataString)))"

text \<open>
  The text that is hashed, for a value that has one: the serialisation under the sorted
  keys of the value itself.
\<close>

definition canonical :: "jsval \<Rightarrow> string" where
  "canonical d =
     (case Object_keys d of
        Inl e \<Rightarrow> []
      | Inr ks \<Rightarrow> (case JSON_stringify d (sort ks) of None \<Rightarrow> [] | Some s \<Rightarrow> s))"

section \<open>The persistent store\<close>

text \<open>
  The rows of the tables \<^verbatim>\<open>blockchain_transactions\<close> and \<^verbatim>\<open>security_logs\<close>, with the
  columns the services write and read. \<open>riskLevel\<close> is the string the code passes. The
  \<open>userId\<close> of a log row is the number the caller passes; on a digest mismatch it is the
  result of \<^verbatim>\<open>parseInt\<close>, and \<open>None\<close> is \<^verbatim>\<open>NaN\<close>.
\<close>

record BlockchainTransaction =
  txHash :: string
  txType :: string
  relatedEntityId :: "string option"
  data :: jsval
  blockNumber :: int
  gasUsed :: int
  isConfirmed :: bool

record SecurityLog =
  userId :: "int option"
  eventType :: string
  eventDescription :: string
  riskLevel :: string
  blockchainHash :: "string option"
  isAnomaly :: bool

record RateLimit =
  count :: int
  resetTime :: int

text \<open>
  The three module-level singletons are the fields of one state: the four collections and
  the thresholds of \<^verbatim>\<open>SecurityService\<close>, the counter of \<^verbatim>\<open>BlockchainService\<close>, and the
  tables of \<^verbatim>\<open>DatabaseStorage\<close>: the two tables the services write, each in insertion
  order, and the ids of the rows of \<^verbatim>\<open>users\<close>, which \<^verbatim>\<open>security_logs.user_id\<close> references.
  The ids of \<^verbatim>\<open>users\<close> are serial, counted from 1, so that no row has the id 0; a
  statement that depends on it says so. Of the constraints of the two tables the model has
  this reference. The insert into \<^verbatim>\<open>blockchain_transactions\<close> is taken to succeed: a
  second row with the same \<^verbatim>\<open>tx_hash\<close>, a type or a level longer than its column, and a
  lost connection are outside the model.
\<close>

record World =
  blockedIPs :: "string set"
  suspiciousActivities :: "string \<rightharpoonup> int"
  rateLimits :: "string \<rightharpoonup> RateLimit"
  failedAttempts :: "string \<rightharpoonup> int"
  currentBlockNumber :: int
  blockchainTransactions :: "BlockchainTransaction list"
  securityLogs :: "SecurityLog list"
  users :: "int set"

definition MAX_FAILED_ATTEMPTS :: int where "MAX_FAILED_ATTEMPTS = 5"
definition RATE_LIMIT_WINDOW :: int where "RATE_LIMIT_WINDOW = 60000"
definition MAX_REQUESTS_PER_MINUTE :: int where "MAX_REQUESTS_PER_MINUTE = 100"
definition SUSPICIOUS_THRESHOLD :: int where "SUSPICIOUS_THRESHOLD = 10"

text \<open>
  The state after both constructors have run (\<^verbatim>\<open>initializeFirewall\<close> included), on an
  empty database.
\<close>

definition initialWorld :: World where
  "initialWorld =
     \<lparr> blockedIPs = {''0.0.0.0'', ''192.168.1.1''},
       suspiciousActivities = Map.empty,
       rateLimits = Map.empty,
       failedAttempts = Map.empty,
       currentBlockNumber = 0,
       blockchainTransactions = [],
       securityLogs = [],
       users = {} \<rparr>"

text \<open>
  What one call reads from its environment: \<^verbatim>\<open>Date.now()\<close> in \<^verbatim>\<open>createAuditTrail\<close>,
  \<^verbatim>\<open>Date.now()\<close> in \<^verbatim>\<open>createSecurityTransaction\<close>, and
  \<^verbatim>\<open>Math.floor(Math.random() * 50000)\<close>.
\<close>

record Ambient =
  auditNow :: int
  txNow :: int
  random50000 :: int

text \<open>
  \<^verbatim>\<open>createBlockchainTransaction\<close> adds the row it is given and resolves to the row as the
  table returns it. The column \<^verbatim>\<open>data\<close> is \<^verbatim>\<open>jsonb\<close>: every query returns a payload as
  its JSON round trip. The list keeps the rows as they were written, and \<open>readRow\<close> is a
  row as a query returns it.
\<close>

definition readRow :: "BlockchainTransaction \<Rightarrow> BlockchainTransaction" where
  "readRow t = t\<lparr>data := jsonb (data t)\<rparr>"

definition createBlockchainTransaction ::
  "BlockchainTransaction \<Rightarrow> World \<Rightarrow> BlockchainTransaction \<times> World" where
  "createBlockchainTransaction insertTx w =
     (readRow insertTx, w\<lparr>blockchainTransactions := blockchainTransactions w @ [insertTx]\<rparr>)"

definition getBlockchainTransaction :: "string \<Rightarrow> World \<Rightarrow> BlockchainTransaction option" where
  "getBlockchainTransaction h w =
     map_option readRow (find (\<lambda>t. txHash t = h) (blockchainTransactions w))"

text \<open>Ordered by \<^verbatim>\<open>createdAt\<close>, latest first.\<close>

definition getAllBlockchainTransactions :: "World \<Rightarrow> BlockchainTransaction list" where
  "getAllBlockchainTransactions w = map readRow (rev (blockchainTransactions w))"

text \<open>
  \<^verbatim>\<open>createSecurityLog\<close> inserts into \<^verbatim>\<open>security_logs\<close>, whose column \<^verbatim>\<open>user_id\<close> is an
  integer that references \<^verbatim>\<open>users.id\<close>: the insert is refused, and the promise rejects,
  when the number is \<^verbatim>\<open>NaN\<close> or names no row of \<^verbatim>\<open>users\<close>. A refused insert leaves the table
  as it is.
\<close>

definition createSecurityLog :: "SecurityLog \<Rightarrow> World \<Rightarrow> (error + unit) \<times> World" where
  "createSecurityLog insertLog w =
     (case userId insertLog of
        None \<Rightarrow> (Inl InvalidInteger, w)
      | Some u \<Rightarrow>
          if u \<in> users w
          then (Inr (), w\<lparr>securityLogs := securityLogs w @ [insertLog]\<rparr>)
          else (Inl ForeignKeyViolation, w))"

section \<open>BlockchainService\<close>

text \<open>
  \<^verbatim>\<open>createSecurityTransaction\<close>. The second digest is computed from \<^verbatim>\<open>transactionData\<close>,
  the object in memory from which the first was computed; the row the insert resolves to,
  \<^verbatim>\<open>dbTransaction\<close>, is not read. A failed call keeps the state it had reached.
\<close>

definition transactionData :: "string \<Rightarrow> jsval \<Rightarrow> int option \<Rightarrow> int \<Rightarrow> int \<Rightarrow> jsval" where
  "transactionData evType payload uid timestamp blockNo =
     JObj [(''eventType'', JStr evType),
           (''data'', payload),
           (''userId'', case uid of None \<Rightarrow> JUndefined | Some u \<Rightarrow> JNum u),
           (''timestamp'', JNum timestamp),
           (''blockNumber'', JNum blockNo)]"

text \<open>The row passed to the insert.\<close>

definition insertTransaction ::
  "string \<Rightarrow> string \<Rightarrow> int option \<Rightarrow> jsval \<Rightarrow> int \<Rightarrow> int \<Rightarrow> BlockchainTransaction" where
  "insertTransaction h evType uid td blockNo rnd =
     \<lparr> txHash = h,
       txType = evType,
       relatedEntityId = map_option show_int uid,
       data = td,
       blockNumber = blockNo,
       gasUsed = rnd + 21000,
       isConfirmed = True \<rparr>"

definition createSecurityTransaction ::
  "(string \<Rightarrow> string) \<Rightarrow> int \<Rightarrow> int \<Rightarrow> string \<Rightarrow> jsval \<Rightarrow> int option \<Rightarrow> World \<Rightarrow>
   (error + string) \<times> World" where
  "createSecurityTransaction H now rnd evType payload uid w =
     (let td = transactionData evType payload uid now (currentBlockNumber w + 1) in
      case generateTransactionHash H td of
        Inl e \<Rightarrow> (Inl e, w)
      | Inr h \<Rightarrow>
          (let w1 = w\<lparr>currentBlockNumber := currentBlockNumber w + 1\<rparr>;
               (dbTransaction, w2) =
                 createBlockchainTransaction
                   (insertTransaction h evType uid td (currentBlockNumber w1) rnd) w1
           in case generateTransactionHash H td of
                Inl e \<Rightarrow> (Inl e, w2)
              | Inr verificationHash \<Rightarrow>
                  if verificationHash \<noteq> h then (Inl IntegrityError, w2)
                  else (Inr h, w2)))"

text \<open>
  The log row both verification paths insert on a digest mismatch; its user is
  \<^verbatim>\<open>parseInt(relatedEntityId || '0')\<close>.
\<close>

definition relatedUser :: "string option \<Rightarrow> int option" where
  "relatedUser related =
     parseInt (case related of None \<Rightarrow> ''0'' | Some s \<Rightarrow> if s = [] then ''0'' else s)"

definition criticalLog :: "string \<Rightarrow> string \<Rightarrow> string option \<Rightarrow> SecurityLog" where
  "criticalLog evType description related =
     \<lparr> userId = relatedUser related,
       eventType = evType,
       eventDescription = description,
       riskLevel = ''critical'',
       blockchainHash = None,
       isAnomaly = True \<rparr>"

text \<open>
  \<^verbatim>\<open>verifyTransaction\<close>. The whole body is inside \<^verbatim>\<open>try\<close>: an exception of the digest
  and a rejected insert of the log row both end in the \<^verbatim>\<open>catch\<close>, which returns false.
\<close>

definition verifyTransaction :: "(string \<Rightarrow> string) \<Rightarrow> string \<Rightarrow> World \<Rightarrow> bool \<times> World" where
  "verifyTransaction H h w =
     (case getBlockchainTransaction h w of
        None \<Rightarrow> (False, w)
      | Some dbData \<Rightarrow>
          if \<not> isConfirmed dbData then (False, w)
          else (case generateTransactionHash H (data dbData) of
                  Inl e \<Rightarrow> (False, w)
                | Inr regeneratedHash \<Rightarrow>
                    if regeneratedHash \<noteq> h
                    then (case createSecurityLog
                                 (criticalLog ''blockchain_tampering_detected''
                                    (''Transaction hash verification failed for '' @ h)
                                    (relatedEntityId dbData)) w of
                            (Inl e, w') \<Rightarrow> (False, w')
                          | (Inr u, w') \<Rightarrow> (False, w'))
                    else (True, w)))"




text \<open>
  \<^verbatim>\<open>createAuditTrail\<close>: the ledger entry, then the log row that points to it. Nothing
  catches a rejected insert of the log row: the call rejects, and the ledger entry stays.
\<close>

definition auditData :: "int \<Rightarrow> string \<Rightarrow> string \<Rightarrow> string \<Rightarrow> int \<Rightarrow> jsval" where
  "auditData uid evType description risk timestamp =
     JObj [(''userId'', JNum uid),
           (''eventType'', JStr evType),
           (''description'', JStr description),
           (''riskLevel'', JStr risk),
           (''timestamp'', JNum timestamp),
           (''ipAddress'', JStr ''127.0.0.1'')]"

definition createAuditTrail ::
  "(string \<Rightarrow> string) \<Rightarrow> Ambient \<Rightarrow> int \<Rightarrow> string \<Rightarrow> string \<Rightarrow> string \<Rightarrow> World \<Rightarrow>
   (error + string) \<times> World" where
  "createAuditTrail H amb uid evType description risk w =
     (case createSecurityTransaction H (txNow amb) (random50000 amb) ''security_audit''
             (auditData uid evType description risk (auditNow amb)) (Some uid) w of
        (Inl e, w') \<Rightarrow> (Inl e, w')
      | (Inr h, w') \<Rightarrow>
          (case createSecurityLog
                  \<lparr> userId = Some uid,
                    eventType = evType,
                    eventDescription = description,
                    riskLevel = risk,
                    blockchainHash = Some h,
                    isAnomaly = (risk = ''high'' \<or> risk = ''critical'') \<rparr> w' of
             (Inl e, w'') \<Rightarrow> (Inl e, w'')
           | (Inr u, w'') \<Rightarrow> (Inr h, w'')))"

text \<open>
  The payload, the ledger row and the log row of one audit trail written when the counter
  is \<open>blockNo - 1\<close>, as \<^verbatim>\<open>createAuditTrail\<close> and \<^verbatim>\<open>createSecurityTransaction\<close> build them.
\<close>

definition auditTransactionData ::
  "Ambient \<Rightarrow> int \<Rightarrow> string \<Rightarrow> string \<Rightarrow> string \<Rightarrow> int \<Rightarrow> jsval" where
  "auditTransactionData amb uid evType description risk blockNo =
     transactionData ''security_audit'' (auditData uid evType description risk (auditNow amb))
       (Some uid) (txNow amb) blockNo"

definition auditEntry ::
  "(string \<Rightarrow> string) \<Rightarrow> Ambient \<Rightarrow> int \<Rightarrow> string \<Rightarrow> string \<Rightarrow> string \<Rightarrow> int \<Rightarrow>
   BlockchainTransaction" where
  "auditEntry H amb uid evType description risk blockNo =
     insertTransaction
       (H (canonical (auditTransactionData amb uid evType description risk blockNo)))
       ''security_audit'' (Some uid)
       (auditTransactionData amb uid evType description risk blockNo) blockNo (random50000 amb)"

definition auditLog ::
  "(string \<Rightarrow> string) \<Rightarrow> Ambient \<Rightarrow> int \<Rightarrow> string \<Rightarrow> string \<Rightarrow> string \<Rightarrow> int \<Rightarrow> SecurityLog" where
  "auditLog H amb uid evType description risk blockNo =
     \<lparr> userId = Some uid,
       eventType = evType,
       eventDescription = description,
       riskLevel = risk,
       blockchainHash =
         Some (H (canonical (auditTransactionData amb uid evType description risk blockNo))),
       isAnomaly = (risk = ''high'' \<or> risk = ''critical'') \<rparr>"

text \<open>A number of consecutive \<^verbatim>\<open>createSecurityTransaction\<close> calls, stopped by the first error.\<close>

record AppendCall =
  callNow :: int
  callRandom :: int
  callEventType :: string
  callData :: jsval
  callUserId :: "int option"

fun appendAll ::
  "(string \<Rightarrow> string) \<Rightarrow> AppendCall list \<Rightarrow> World \<Rightarrow> (error + string list) \<times> World" where
  "appendAll H [] w = (Inr [], w)"
| "appendAll H (c # cs) w =
     (case createSecurityTransaction H (callNow c) (callRandom c) (callEventType c)
             (callData c) (callUserId c) w of
        (Inl e, w') \<Rightarrow> (Inl e, w')
      | (Inr h, w') \<Rightarrow>
          (case appendAll H cs w' of
             (Inl e, w'') \<Rightarrow> (Inl e, w'')
           | (Inr hs, w'') \<Rightarrow> (Inr (h # hs), w'')))"

section \<open>SecurityService\<close>

text \<open>The key \<^verbatim>\<open>`${a}:${b}`\<close> of the four maps.\<close>

definition compositeKey :: "string \<Rightarrow> string \<Rightarrow> string" where
  "compositeKey a b = a @ '':'' @ b"

text \<open>\<^verbatim>\<open>map.get(key) || 0\<close> on a map of numbers.\<close>

definition get_or_zero :: "(string \<rightharpoonup> int) \<Rightarrow> string \<Rightarrow> int" where
  "get_or_zero m k = (case m k of None \<Rightarrow> 0 | Some n \<Rightarrow> n)"

definition isIPBlocked :: "string \<Rightarrow> World \<Rightarrow> bool" where
  "isIPBlocked ipAddress w = (ipAddress \<in> blockedIPs w)"

definition blockIP ::
  "(string \<Rightarrow> string) \<Rightarrow> Ambient \<Rightarrow> string \<Rightarrow> string \<Rightarrow> int option \<Rightarrow> World \<Rightarrow>
   (error + unit) \<times> World" where
  "blockIP H amb ipAddress reason uid w =
     (case createAuditTrail H amb (case uid of None \<Rightarrow> 0 | Some u \<Rightarrow> u) ''ip_blocked''
             (''IP '' @ ipAddress @ '' blocked: '' @ reason) ''high''
             (w\<lparr>blockedIPs := insert ipAddress (blockedIPs w)\<rparr>) of
        (Inl e, w') \<Rightarrow> (Inl e, w')
      | (Inr h, w') \<Rightarrow> (Inr (), w'))"

text \<open>
  \<^verbatim>\<open>recordSuspiciousActivity\<close>; its first argument is a string (\<open>Inl\<close>) or a number
  (\<open>Inr\<close>). It may write two audit trails, so it reads the environment twice.
\<close>

definition recordSuspiciousActivity ::
  "(string \<Rightarrow> string) \<Rightarrow> Ambient \<Rightarrow> Ambient \<Rightarrow> string + int \<Rightarrow> string \<Rightarrow> string \<Rightarrow> string \<Rightarrow>
   World \<Rightarrow> (error + unit) \<times> World" where
  "recordSuspiciousActivity H amb amb' subject activityType description ipAddress w =
     (let key = compositeKey (case subject of Inl s \<Rightarrow> s | Inr n \<Rightarrow> show_int n) activityType;
          newCount = get_or_zero (suspiciousActivities w) key + 1;
          w1 = w\<lparr>suspiciousActivities := (suspiciousActivities w)(key \<mapsto> newCount)\<rparr>;
          risk = (if newCount > SUSPICIOUS_THRESHOLD then ''critical''
                  else if newCount > 5 then ''high'' else ''medium'')
      in case createAuditTrail H amb (case subject of Inl s \<Rightarrow> 0 | Inr n \<Rightarrow> n)
                ''suspicious_activity''
                (activityType @ '': '' @ description @ '' (occurrence: '' @ show_int newCount @ '')'')
                risk w1 of
           (Inl e, w2) \<Rightarrow> (Inl e, w2)
         | (Inr h, w2) \<Rightarrow>
             if newCount > SUSPICIOUS_THRESHOLD
             then blockIP H amb' ipAddress
                    (''Suspicious activity threshold exceeded: '' @ activityType) None w2
             else (Inr (), w2))"

definition checkRateLimit ::
  "(string \<Rightarrow> string) \<Rightarrow> int \<Rightarrow> Ambient \<Rightarrow> Ambient \<Rightarrow> string \<Rightarrow> string \<Rightarrow> World \<Rightarrow>
   (error + bool) \<times> World" where
  "checkRateLimit H now amb amb' identifier ipAddress w =
     (let key = compositeKey identifier ipAddress in
      case rateLimits w key of
        None \<Rightarrow>
          (Inr True,
           w\<lparr>rateLimits := (rateLimits w)
                (key \<mapsto> \<lparr> count = 1, resetTime = now + RATE_LIMIT_WINDOW \<rparr>)\<rparr>)
      | Some limit \<Rightarrow>
          if now > resetTime limit
          then (Inr True,
                w\<lparr>rateLimits := (rateLimits w)
                     (key \<mapsto> \<lparr> count = 1, resetTime = now + RATE_LIMIT_WINDOW \<rparr>)\<rparr>)
          else if count limit \<ge> MAX_REQUESTS_PER_MINUTE
          then (case recordSuspiciousActivity H amb amb' (Inl identifier)
                       ''rate_limit_exceeded''
                       (''Rate limit exceeded: '' @ show_int (count limit) @ '' requests'')
                       ipAddress w of
                  (Inl e, w') \<Rightarrow> (Inl e, w')
                | (Inr u, w') \<Rightarrow> (Inr False, w'))
          else (Inr True,
                w\<lparr>rateLimits := (rateLimits w)
                     (key \<mapsto> limit\<lparr>count := count limit + 1\<rparr>)\<rparr>))"

definition recordFailedAttempt ::
  "(string \<Rightarrow> string) \<Rightarrow> Ambient \<Rightarrow> string \<Rightarrow> string \<Rightarrow> World \<Rightarrow> (error + bool) \<times> World" where
  "recordFailedAttempt H amb identifier ipAddress w =
     (let key = compositeKey identifier ipAddress;
          newAttempts = get_or_zero (failedAttempts w) key + 1;
          w1 = w\<lparr>failedAttempts := (failedAttempts w)(key \<mapsto> newAttempts)\<rparr>
      in if newAttempts \<ge> MAX_FAILED_ATTEMPTS
         then (case blockIP H amb ipAddress
                      (show_int MAX_FAILED_ATTEMPTS @ '' failed login attempts for '' @ identifier)
                      None w1 of
                 (Inl e, w2) \<Rightarrow> (Inl e, w2)
               | (Inr u, w2) \<Rightarrow> (Inr True, w2))
         else (case createAuditTrail H amb 0 ''failed_login_attempt''
                      (''Failed login attempt '' @ show_int newAttempts @ ''/''
                         @ show_int MAX_FAILED_ATTEMPTS @ '' for '' @ identifier)
                      (if newAttempts > 2 then ''medium'' else ''low'') w1 of
                 (Inl e, w2) \<Rightarrow> (Inl e, w2)
               | (Inr h, w2) \<Rightarrow> (Inr False, w2)))"

definition clearFailedAttempts :: "string \<Rightarrow> string \<Rightarrow> World \<Rightarrow> World" where
  "clearFailedAttempts identifier ipAddress w =
     w\<lparr>failedAttempts := (failedAttempts w)(compositeKey identifier ipAddress := None)\<rparr>"

text \<open>
  Consecutive \<^verbatim>\<open>recordFailedAttempt\<close> calls for one identifier and address, with the
  outcome of each: the caller of a rejected call goes on to the next.
\<close>

fun recordFailedAttempts ::
  "(string \<Rightarrow> string) \<Rightarrow> Ambient list \<Rightarrow> string \<Rightarrow> string \<Rightarrow> World \<Rightarrow>
   (error + bool) list \<times> World" where
  "recordFailedAttempts H [] identifier ipAddress w = ([], w)"
| "recordFailedAttempts H (amb # ambs) identifier ipAddress w =
     (case recordFailedAttempt H amb identifier ipAddress w of
        (r, w') \<Rightarrow>
          (case recordFailedAttempts H ambs identifier ipAddress w' of
             (rs, w'') \<Rightarrow> (r # rs, w'')))"

text \<open>
  Consecutive \<^verbatim>\<open>checkRateLimit\<close> calls for one identifier and address, each with the time
  it reads, with the outcome of each.
\<close>

fun checkRateLimits ::
  "(string \<Rightarrow> string) \<Rightarrow> (int \<times> Ambient \<times> Ambient) list \<Rightarrow> string \<Rightarrow> string \<Rightarrow> World \<Rightarrow>
   (error + bool) list \<times> World" where
  "checkRateLimits H [] identifier ipAddress w = ([], w)"
| "checkRateLimits H ((now, amb, amb') # calls) identifier ipAddress w =
     (case checkRateLimit H now amb amb' identifier ipAddress w of
        (r, w') \<Rightarrow>
          (case checkRateLimits H calls identifier ipAddress w' of
             (rs, w'') \<Rightarrow> (r # rs, w'')))"

text \<open>
  \<^verbatim>\<open>detectIntrusion\<close>. The two metadata flags are read only when the activity names
  them (\<^verbatim>\<open>&&\<close> evaluates its right side only then), and reading a property of \<^verbatim>\<open>null\<close> or
  \<^verbatim>\<open>undefined\<close> throws.
\<close>

record IntrusionResult =
  threat :: bool
  level :: string
  action :: string

definition detectIntrusion ::
  "(string \<Rightarrow> string) \<Rightarrow> Ambient \<Rightarrow> int \<Rightarrow> string \<Rightarrow> jsval \<Rightarrow> World \<Rightarrow>
   (error + IntrusionResult) \<times> World" where
  "detectIntrusion H amb uid activity metadata w =
     (let rapidCount = get_or_zero (suspiciousActivities w)
                         (compositeKey (show_int uid) ''rapid_activity'');
          threats1 = (if rapidCount > 20 then [''rapid_activity''] else [])
      in case (if string_includes activity ''permission''
               then get_property metadata ''unusual_pattern'' else Inr JUndefined) of
           Inl e \<Rightarrow> (Inl e, w)
         | Inr unusual \<Rightarrow>
            (let threats2 = threats1 @ (if truthy unusual then [''unusual_permission_pattern''] else [])
             in case (if string_includes activity ''file_access''
                      then get_property metadata ''suspicious_size'' else Inr JUndefined) of
                  Inl e \<Rightarrow> (Inl e, w)
                | Inr suspicious \<Rightarrow>
                   (let threats = threats2 @ (if truthy suspicious then [''file_access_anomaly''] else [])
                    in if length threats = 0
                       then (Inr \<lparr> threat = False, level = ''none'', action = ''continue'' \<rparr>, w)
                       else
                        (let lvl = (if length threats > 2 then ''critical''
                                    else if length threats > 1 then ''high'' else ''medium'');
                             act = (if lvl = ''critical'' then ''block_user''
                                    else if lvl = ''high'' then ''require_verification''
                                    else ''monitor'')
                         in case createAuditTrail H amb uid ''intrusion_detected''
                                   (''Intrusion detected: '' @ join_with '', '' threats) lvl w of
                              (Inl e, w') \<Rightarrow> (Inl e, w')
                            | (Inr h, w') \<Rightarrow>
                                (Inr \<lparr> threat = True, level = lvl, action = act \<rparr>, w')))))"

text \<open>
  \<^verbatim>\<open>cleanupSecurityData\<close>. The second loop compares the value stored in
  \<^verbatim>\<open>failedAttempts\<close>, which \<^verbatim>\<open>recordFailedAttempt\<close> sets to the number of attempts, with
  the time one hour before \<open>now\<close>.
\<close>

definition cleanupSecurityData :: "int \<Rightarrow> World \<Rightarrow> World" where
  "cleanupSecurityData now w =
     (let oneHourAgo = now - 60 * 60 * 1000 in
      w\<lparr> rateLimits :=
           (\<lambda>key. case rateLimits w key of
                     None \<Rightarrow> None
                   | Some limit \<Rightarrow> if now > resetTime limit then None else Some limit),
         failedAttempts :=
           (\<lambda>key. case failedAttempts w key of
                     None \<Rightarrow> None
                   | Some timestamp \<Rightarrow> if timestamp < oneHourAgo then None else Some timestamp) \<rparr>)"

subsection \<open>Encryption\<close>

text \<open>
  The cipher of the library is a parameter: \<open>enc plaintext key\<close> is the text of
  \<^verbatim>\<open>CryptoJS.AES.encrypt(plaintext, key)\<close>, and \<open>dec ciphertext key\<close> is the decoded result of
  \<^verbatim>\<open>CryptoJS.AES.decrypt\<close>, \<open>None\<close> when decoding throws. The environment variable is an
  optional string. \<open>or_else a b\<close> is \<^verbatim>\<open>a || b\<close> on optional strings.
\<close>

definition or_else :: "string option \<Rightarrow> string option \<Rightarrow> string option" where
  "or_else a b = (case a of None \<Rightarrow> b | Some s \<Rightarrow> if s = [] then b else Some s)"

definition encryptData ::
  "(string \<Rightarrow> string \<Rightarrow> string) \<Rightarrow> string option \<Rightarrow> string \<Rightarrow> string option \<Rightarrow> error + string" where
  "encryptData enc ENCRYPTION_KEY plaintext key =
     (case or_else key ENCRYPTION_KEY of
        None \<Rightarrow> Inl ConfigurationError
      | Some encryptionKey \<Rightarrow>
          if encryptionKey = [] then Inl ConfigurationError
          else Inr (enc plaintext encryptionKey))"

definition decryptData ::
  "(string \<Rightarrow> string \<Rightarrow> string option) \<Rightarrow> string option \<Rightarrow> string \<Rightarrow> string option \<Rightarrow> string" where
  "decryptData dec ENCRYPTION_KEY encryptedData key =
     (case or_else key ENCRYPTION_KEY of
        None \<Rightarrow> []
      | Some encryptionKey \<Rightarrow>
          if encryptionKey = [] then []
          else (case dec encryptedData encryptionKey of None \<Rightarrow> [] | Some plain \<Rightarrow> plain))"

definition encryptPrivateKey ::
  "(string \<Rightarrow> string \<Rightarrow> string) \<Rightarrow> string option \<Rightarrow> string \<Rightarrow> error + string" where
  "encryptPrivateKey enc MASTER_ENCRYPTION_KEY privateKey =
     (case MASTER_ENCRYPTION_KEY of
        None \<Rightarrow> Inl ConfigurationError
      | Some masterKey \<Rightarrow>
          if masterKey = [] then Inl ConfigurationError
          else Inr (enc privateKey masterKey))"

definition decryptPrivateKey ::
  "(string \<Rightarrow> string \<Rightarrow> string option) \<Rightarrow> string option \<Rightarrow> string \<Rightarrow> error + string" where
  "decryptPrivateKey dec MASTER_ENCRYPTION_KEY encryptedKey =
     (case MASTER_ENCRYPTION_KEY of
        None \<Rightarrow> Inl ConfigurationError
      | Some masterKey \<Rightarrow>
          if masterKey = [] then Inl ConfigurationError
          else (case dec encryptedKey masterKey of
                  None \<Rightarrow> Inl MalformedData
                | Some plain \<Rightarrow> Inr plain))"

section \<open>Example data\<close>

text \<open>
  A new service on a database with one user, whose id is 7, and the ledger after one
  audited login of this user, written by \<^verbatim>\<open>createAuditTrail\<close>. Then copies of that ledger
  changed directly in the table: one with the description and the risk level inside the
  payload rewritten, one with the time stamp of the payload changed, one with the payload
  replaced by \<^verbatim>\<open>null\<close>, one with the row marked unconfirmed. The digest function of the
  examples is the identity, so that a hash shows the text it was computed from.
\<close>

definition exampleAmbient :: Ambient where
  "exampleAmbient = \<lparr> auditNow = 1000, txNow = 1001, random50000 = 0 \<rparr>"

definition oneUserWorld :: World where
  "oneUserWorld = initialWorld\<lparr>users := {7}\<rparr>"













text \<open>A failed attempt recorded at a realistic time of day, for the cleanup example.\<close>

definition recentAmbient :: Ambient where
  "recentAmbient = \<lparr> auditNow = 1700000000000, txNow = 1700000000000, random50000 = 0 \<rparr>"

section \<open>Notions used in the statements\<close>

text \<open>
  Two values are the same up to the order of object keys, at any depth: equal values;
  arrays of the same length whose elements are so related; objects with the same keys, each
  key once, whose values under every key are so related.
\<close>

inductive key_order_equiv :: "jsval \<Rightarrow> jsval \<Rightarrow> bool" where
  same: "key_order_equiv v v"
| arrays: "list_all2 key_order_equiv xs ys \<Longrightarrow> key_order_equiv (JArr xs) (JArr ys)"
| objects:
    "distinct (map fst kvs) \<Longrightarrow> distinct (map fst kvs') \<Longrightarrow>
     set (map fst kvs) = set (map fst kvs') \<Longrightarrow>
     (\<forall>k v v'. map_of kvs k = Some v \<longrightarrow> map_of kvs' k = Some v' \<longrightarrow> key_order_equiv v v') \<Longrightarrow>
     key_order_equiv (JObj kvs) (JObj kvs')"

text \<open>
  The ledger row that the \<open>n\<close>-th failed attempt for a key writes when the counter of
  blocks is \<open>blockNo - 1\<close>: the audit of a block at high risk from the threshold on, the
  audit of a failed login below it. Then the rows of consecutive attempts, after \<open>c\<close>
  earlier ones.
\<close>

definition attemptEntry ::
  "(string \<Rightarrow> string) \<Rightarrow> Ambient \<Rightarrow> string \<Rightarrow> string \<Rightarrow> int \<Rightarrow> int \<Rightarrow> BlockchainTransaction" where
  "attemptEntry H amb identifier ipAddress n blockNo =
     (if MAX_FAILED_ATTEMPTS \<le> n
      then auditEntry H amb 0 ''ip_blocked''
             (''IP '' @ ipAddress @ '' blocked: 5 failed login attempts for '' @ identifier)
             ''high'' blockNo
      else auditEntry H amb 0 ''failed_login_attempt''
             (''Failed login attempt '' @ show_int n @ ''/5 for '' @ identifier)
             (if 2 < n then ''medium'' else ''low'') blockNo)"

fun attemptEntries ::
  "(string \<Rightarrow> string) \<Rightarrow> Ambient list \<Rightarrow> string \<Rightarrow> string \<Rightarrow> int \<Rightarrow> int \<Rightarrow>
   BlockchainTransaction list" where
  "attemptEntries H [] identifier ipAddress c blockNo = []"
| "attemptEntries H (amb # ambs) identifier ipAddress c blockNo =
     attemptEntry H amb identifier ipAddress (c + 1) (blockNo + 1)
       # attemptEntries H ambs identifier ipAddress (c + 1) (blockNo + 1)"




text \<open>
  The intrusion scoring as the specification words it, to be compared with
  \<^verbatim>\<open>detectIntrusion\<close>: three signals, the number of those that match, the level for a
  number and the action for a level.
\<close>

definition spec_signals :: "World \<Rightarrow> int \<Rightarrow> string \<Rightarrow> jsval \<Rightarrow> bool list" where
  "spec_signals w uid activity metadata =
     [20 < get_or_zero (suspiciousActivities w) (compositeKey (show_int uid) ''rapid_activity''),
      string_includes activity ''permission''
        \<and> (case get_property metadata ''unusual_pattern'' of Inl e \<Rightarrow> False | Inr v \<Rightarrow> truthy v),
      string_includes activity ''file_access''
        \<and> (case get_property metadata ''suspicious_size'' of Inl e \<Rightarrow> False | Inr v \<Rightarrow> truthy v)]"

definition spec_signal_count :: "World \<Rightarrow> int \<Rightarrow> string \<Rightarrow> jsval \<Rightarrow> nat" where
  "spec_signal_count w uid activity metadata =
     length (filter id (spec_signals w uid activity metadata))"

definition spec_level :: "nat \<Rightarrow> string" where
  "spec_level n =
     (if n = 0 then ''none'' else if n = 1 then ''medium'' else if n = 2 then ''high''
      else ''critical'')"

definition spec_action :: "string \<Rightarrow> string" where
  "spec_action lvl =
     (if lvl = ''none'' then ''continue'' else if lvl = ''medium'' then ''monitor''
      else if lvl = ''high'' then ''require_verification'' else ''block_user'')"

section \<open>Serialisation and digest: basic facts\<close>

lemma map_of_SerializeJSONMembers:
  "map_of (SerializeJSONMembers K kvs) P = map_option (SerializeJSONProperty K) (map_of kvs P)"
  by (induction kvs) auto

text \<open>
  The object case read lazily: only the properties named in the property list are
  serialised. This is the equation used to evaluate examples.
\<close>

lemma SerializeJSONProperty_object:
  "SerializeJSONProperty K (JObj kvs) =
     Some (''{'' @ join_with '',''
        (List.map_filter
           (\<lambda>P. case map_of kvs P of
                  None \<Rightarrow> None
                | Some v \<Rightarrow> (case SerializeJSONProperty K v of
                              None \<Rightarrow> None
                            | Some strP \<Rightarrow> Some (QuoteJSONString P @ '':'' @ strP))) K) @ ''}'')"
proof -
  have "(\<lambda>P. case map_of (SerializeJSONMembers K kvs) P of
                  Some (Some strP) \<Rightarrow> Some (QuoteJSONString P @ '':'' @ strP)
                | _ \<Rightarrow> None)
      = (\<lambda>P. case map_of kvs P of
                  None \<Rightarrow> None
                | Some v \<Rightarrow> (case SerializeJSONProperty K v of
                              None \<Rightarrow> None
                            | Some strP \<Rightarrow> Some (QuoteJSONString P @ '':'' @ strP)))"
    by (rule ext) (simp add: map_of_SerializeJSONMembers split: option.splits)
  then show ?thesis by simp
qed

lemmas stringify_eval =
  canonical_def Object_keys_def JSON_stringify_def propertyList_def List.map_filter_def
  QuoteJSONString_def escape_char_def show_int_def show_nat.simps transactionData_def
  SerializeJSONProperty_object

lemma SerializeJSONProperty_defined:
  "v \<noteq> JUndefined \<Longrightarrow> SerializeJSONProperty K v \<noteq> None"
  by (cases v) simp_all

text \<open>The digest is defined except on \<^verbatim>\<open>null\<close> and \<^verbatim>\<open>undefined\<close>, where \<^verbatim>\<open>Object.keys\<close> throws.\<close>

lemma generateTransactionHash_cases:
  "generateTransactionHash H d =
     (if d = JNull \<or> d = JUndefined then Inl TypeError else Inr (H (canonical d)))"
proof (cases "d = JNull \<or> d = JUndefined")
  case True
  then show ?thesis
    by (auto simp: generateTransactionHash_def Object_keys_def)
next
  case False
  then obtain ks where ks: "Object_keys d = Inr ks"
    by (cases d) (simp_all add: Object_keys_def)
  from False have "JSON_stringify d (sort ks) \<noteq> None"
    by (simp add: JSON_stringify_def SerializeJSONProperty_defined)
  then obtain s where "JSON_stringify d (sort ks) = Some s"
    by blast
  with ks False show ?thesis
    by (simp add: generateTransactionHash_def canonical_def)
qed

lemma generateTransactionHash_object:
  "generateTransactionHash H (JObj kvs) = Inr (H (canonical (JObj kvs)))"
  by (simp add: generateTransactionHash_cases)

lemma generateTransactionHash_transactionData:
  "generateTransactionHash H (transactionData ev p uid t b)
     = Inr (H (canonical (transactionData ev p uid t b)))"
  by (simp add: transactionData_def generateTransactionHash_object)

section \<open>The JSON round trip and the digest\<close>








section \<open>What one append does\<close>

text \<open>
  The second digest is the first one computed again from the same object, so the check
  never fails: every call returns the hash and adds the row.
\<close>

lemma createSecurityTransaction_result:
  "createSecurityTransaction H now rnd ev p uid w =
     (Inr (H (canonical (transactionData ev p uid now (currentBlockNumber w + 1)))),
      w\<lparr> currentBlockNumber := currentBlockNumber w + 1,
         blockchainTransactions := blockchainTransactions w @
           [insertTransaction
              (H (canonical (transactionData ev p uid now (currentBlockNumber w + 1))))
              ev uid (transactionData ev p uid now (currentBlockNumber w + 1))
              (currentBlockNumber w + 1) rnd] \<rparr>)"
  by (simp add: createSecurityTransaction_def createBlockchainTransaction_def Let_def
      generateTransactionHash_transactionData)

lemma appendAll_inv:
  "\<exists>hs rows. appendAll H cs w =
      (Inr hs, w\<lparr> currentBlockNumber := currentBlockNumber w + int (length cs),
                  blockchainTransactions := blockchainTransactions w @ rows \<rparr>)
    \<and> length hs = length cs
    \<and> map txHash rows = hs
    \<and> map blockNumber rows = map (\<lambda>i. currentBlockNumber w + int i) [1..<Suc (length cs)]"
proof (induction cs arbitrary: w)
  case Nil
  show ?case by simp
next
  case (Cons c cs)
  obtain h w1 row where step:
      "createSecurityTransaction H (callNow c) (callRandom c) (callEventType c)
         (callData c) (callUserId c) w = (Inr h, w1)"
    and w1: "w1 = w\<lparr> currentBlockNumber := currentBlockNumber w + 1,
                     blockchainTransactions := blockchainTransactions w @ [row] \<rparr>"
    and row: "txHash row = h" "blockNumber row = currentBlockNumber w + 1"
    by (simp add: createSecurityTransaction_result insertTransaction_def)
  from Cons.IH[of w1] obtain hs rows where ih:
    "appendAll H cs w1 =
       (Inr hs, w1\<lparr> currentBlockNumber := currentBlockNumber w1 + int (length cs),
                    blockchainTransactions := blockchainTransactions w1 @ rows \<rparr>)"
    "length hs = length cs" "map txHash rows = hs"
    "map blockNumber rows = map (\<lambda>i. currentBlockNumber w1 + int i) [1..<Suc (length cs)]"
    by blast
  have "[1..<Suc (Suc (length cs))] = 1 # map Suc [1..<Suc (length cs)]"
    by (metis One_nat_def map_Suc_upt upt_conv_Cons zero_less_Suc Suc_less_eq)
  then have nums:
    "map (\<lambda>i. currentBlockNumber w + int i) [1..<Suc (length (c # cs))]
       = (currentBlockNumber w + 1) # map (\<lambda>i. currentBlockNumber w1 + int i) [1..<Suc (length cs)]"
    by (simp add: w1 comp_def)
  show ?case
    apply (rule exI[of _ "h # hs"], rule exI[of _ "row # rows"])
    using step ih row nums w1 by simp
qed

section \<open>Block numbers\<close>

text \<open>
  C3. \<^verbatim>\<open>createSecurityTransaction\<close> hands out block numbers as one increasing sequence:
  \<open>N\<close> consecutive calls from a state whose counter is \<open>k\<close> all return a hash, leave the
  rows that were there untouched, and add \<open>N\<close> rows whose block numbers are
  \<open>k + 1, \<dots>, k + N\<close> in this order, with no duplicate and no gap; the counter ends at
  \<open>k + N\<close>. The counter of a new service is 0, so the first number is 1.
\<close>

theorem block_numbers_consecutive:
  "(\<exists>hs. fst (appendAll H cs w) = Inr hs \<and> length hs = length cs)
   \<and> take (length (blockchainTransactions w)) (blockchainTransactions (snd (appendAll H cs w)))
       = blockchainTransactions w
   \<and> map blockNumber
        (drop (length (blockchainTransactions w)) (blockchainTransactions (snd (appendAll H cs w))))
       = map (\<lambda>i. currentBlockNumber w + int i) [1..<Suc (length cs)]
   \<and> currentBlockNumber (snd (appendAll H cs w)) = currentBlockNumber w + int (length cs)
   \<and> currentBlockNumber initialWorld = 0"
proof -
  from appendAll_inv[of H cs w] obtain hs rows where r:
    "appendAll H cs w =
      (Inr hs, w\<lparr> currentBlockNumber := currentBlockNumber w + int (length cs),
                  blockchainTransactions := blockchainTransactions w @ rows \<rparr>)"
    "length hs = length cs"
    "map blockNumber rows = map (\<lambda>i. currentBlockNumber w + int i) [1..<Suc (length cs)]"
    by blast
  then show ?thesis by (simp add: initialWorld_def)
qed

theorem block_numbers_consecutive_witness:
  "map blockNumber (blockchainTransactions (snd (appendAll id
      [\<lparr> callNow = 1000, callRandom = 7, callEventType = ''message_sent'',
         callData = JNull, callUserId = Some 4 \<rparr>,
       \<lparr> callNow = 1000, callRandom = 9, callEventType = ''message_sent'',
         callData = JNull, callUserId = None \<rparr>,
       \<lparr> callNow = 1002, callRandom = 9, callEventType = ''user_registration'',
         callData = JNull, callUserId = Some 5 \<rparr>]
      initialWorld))) = [1, 2, 3]"
  using block_numbers_consecutive[of id
      "[\<lparr> callNow = 1000, callRandom = 7, callEventType = ''message_sent'',
          callData = JNull, callUserId = Some 4 \<rparr>,
        \<lparr> callNow = 1000, callRandom = 9, callEventType = ''message_sent'',
          callData = JNull, callUserId = None \<rparr>,
        \<lparr> callNow = 1002, callRandom = 9, callEventType = ''user_registration'',
          callData = JNull, callUserId = Some 5 \<rparr>]"
      initialWorld]
  by (simp add: initialWorld_def upt_rec del: appendAll.simps)

section \<open>The digest and the order of keys\<close>

text \<open>
  The property list decides the order in which the members of every object are written,
  so the order in which an object holds its keys has no influence on the text, and hence
  none on the digest.
\<close>

lemma SerializeJSONArray_cong:
  "list_all2 (\<lambda>x y. SerializeJSONProperty K x = SerializeJSONProperty K y) xs ys \<Longrightarrow>
   SerializeJSONArray K xs = SerializeJSONArray K ys"
  by (induction xs ys rule: list_all2_induct) simp_all

lemma key_order_serialisation:
  "key_order_equiv a b \<Longrightarrow> SerializeJSONProperty K a = SerializeJSONProperty K b"
proof (induction arbitrary: K rule: key_order_equiv.induct)
  case (same v)
  show ?case by simp
next
  case (arrays xs ys)
  then have "list_all2 (\<lambda>x y. SerializeJSONProperty K x = SerializeJSONProperty K y) xs ys"
    by (auto elim!: list_all2_mono)
  then show ?case
    by (simp add: SerializeJSONArray_cong)
next
  case (objects kvs kvs')
  have "(case map_of kvs P of
                  None \<Rightarrow> None
                | Some v \<Rightarrow> (case SerializeJSONProperty K v of
                              None \<Rightarrow> None
                            | Some strP \<Rightarrow> Some (QuoteJSONString P @ '':'' @ strP)))
      = (case map_of kvs' P of
                  None \<Rightarrow> None
                | Some v \<Rightarrow> (case SerializeJSONProperty K v of
                              None \<Rightarrow> None
                            | Some strP \<Rightarrow> Some (QuoteJSONString P @ '':'' @ strP)))" for P
  proof (cases "map_of kvs P")
    case None
    then have "P \<notin> set (map fst kvs')"
      using objects.hyps(3) by (simp add: map_of_eq_None_iff)
    then have "map_of kvs' P = None"
      by (simp add: map_of_eq_None_iff)
    with None show ?thesis by simp
  next
    case (Some v)
    then have "P \<in> set (map fst kvs')"
      using objects.hyps(3) by (metis map_of_eq_None_iff option.distinct(1) set_map)
    then obtain v' where v': "map_of kvs' P = Some v'"
      by (metis map_of_eq_None_iff not_None_eq set_map)
    from objects.IH Some v' have "SerializeJSONProperty K v = SerializeJSONProperty K v'"
      by blast
    with Some v' show ?thesis by simp
  qed
  then show ?case
    by (simp add: SerializeJSONProperty_object del: SerializeJSONProperty.simps(7))
qed

lemma key_order_keys:
  assumes "key_order_equiv a b"
  shows "map_sum id sort (Object_keys a) = map_sum id sort (Object_keys b)"
  using assms
proof (cases rule: key_order_equiv.cases)
  case same
  then show ?thesis by simp
next
  case (arrays xs ys)
  then show ?thesis
    by (simp add: Object_keys_def list_all2_lengthD)
next
  case (objects kvs kvs')
  then have "sort (map fst kvs) = sort (map fst kvs')"
    by (intro sorted_distinct_set_unique) simp_all
  with objects show ?thesis
    by (simp add: Object_keys_def distinct_remdups_id)
qed

text \<open>Payloads that differ only in the order of keys, at any depth, have the same digest.\<close>

lemma key_order_independent:
  assumes "key_order_equiv a b"
  shows "generateTransactionHash H a = generateTransactionHash H b"
proof -
  from key_order_keys[OF assms] show ?thesis
    by (cases "Object_keys a"; cases "Object_keys b")
       (simp_all add: generateTransactionHash_def JSON_stringify_def key_order_serialisation[OF assms])
qed

lemma key_order_example:
  "generateTransactionHash H (JObj [(''b'', JNum 1), (''a'', JObj [(''b'', JNull), (''a'', JNum 2)])])
   = generateTransactionHash H (JObj [(''a'', JObj [(''a'', JNum 2), (''b'', JNull)]), (''b'', JNum 1)])"
  by (rule key_order_independent) (auto intro!: key_order_equiv.intros split: if_splits)

section \<open>The digest and nested fields\<close>

text \<open>
  C2. The array passed as replacer is the list of the keys of the top-level object, and
  \<^verbatim>\<open>JSON.stringify\<close> applies it to the objects inside as well: a nested property whose
  name is not also a top-level key is left out of the hashed text. Two payloads that
  differ in such a field have the same digest, for every digest function.
\<close>

theorem nested_fields_not_hashed:
  \<open>generateTransactionHash H (JObj [(''entry'', JObj [(''amount'', JNum 1)])])
     = Inr (H ''{"entry":{}}'')
   \<and> generateTransactionHash H (JObj [(''entry'', JObj [(''amount'', JNum 2)])])
     = Inr (H ''{"entry":{}}'')\<close>
  by (simp add: generateTransactionHash_object stringify_eval del: SerializeJSONProperty.simps(7))

section \<open>Audit trails\<close>

text \<open>
  One \<^verbatim>\<open>createAuditTrail\<close> always writes the ledger entry. It then writes the log row and
  returns the hash when the user exists, and rejects when not.
\<close>

lemma createAuditTrail_result:
  "createAuditTrail H amb uid ev desc risk w =
     (if uid \<in> users w
      then (Inr (H (canonical (auditTransactionData amb uid ev desc risk (currentBlockNumber w + 1)))),
            w\<lparr> currentBlockNumber := currentBlockNumber w + 1,
               blockchainTransactions := blockchainTransactions w @
                 [auditEntry H amb uid ev desc risk (currentBlockNumber w + 1)],
               securityLogs := securityLogs w @
                 [auditLog H amb uid ev desc risk (currentBlockNumber w + 1)] \<rparr>)
      else (Inl ForeignKeyViolation,
            w\<lparr> currentBlockNumber := currentBlockNumber w + 1,
               blockchainTransactions := blockchainTransactions w @
                 [auditEntry H amb uid ev desc risk (currentBlockNumber w + 1)] \<rparr>))"
  by (simp add: createAuditTrail_def createSecurityTransaction_result createSecurityLog_def
      auditEntry_def auditLog_def auditTransactionData_def)

lemma createAuditTrail_effect:
  "fst (createAuditTrail H amb uid ev desc risk w) =
     (if uid \<in> users w
      then Inr (H (canonical (auditTransactionData amb uid ev desc risk (currentBlockNumber w + 1))))
      else Inl ForeignKeyViolation)"
  "blockchainTransactions (snd (createAuditTrail H amb uid ev desc risk w)) =
     blockchainTransactions w @ [auditEntry H amb uid ev desc risk (currentBlockNumber w + 1)]"
  "currentBlockNumber (snd (createAuditTrail H amb uid ev desc risk w)) = currentBlockNumber w + 1"
  "securityLogs (snd (createAuditTrail H amb uid ev desc risk w)) =
     securityLogs w @
       (if uid \<in> users w then [auditLog H amb uid ev desc risk (currentBlockNumber w + 1)] else [])"
  "users (snd (createAuditTrail H amb uid ev desc risk w)) = users w"
  "blockedIPs (snd (createAuditTrail H amb uid ev desc risk w)) = blockedIPs w"
  "suspiciousActivities (snd (createAuditTrail H amb uid ev desc risk w)) = suspiciousActivities w"
  "rateLimits (snd (createAuditTrail H amb uid ev desc risk w)) = rateLimits w"
  "failedAttempts (snd (createAuditTrail H amb uid ev desc risk w)) = failedAttempts w"
  by (simp_all add: createAuditTrail_result)

section \<open>The check after the insert\<close>

text \<open>
  C4. The digest recomputed after the insert is computed from the object in memory, not
  from the row that was stored, so it is the first digest again: every call returns the
  hash and none fails with the integrity error, whatever was stored. An append without a
  user id whose payload has a field named \<^verbatim>\<open>userId\<close> returns its hash, and the row as the
  table gives it back has another digest: the entry does not verify.
\<close>

theorem append_check_misses_stored_payload:
  \<open>fst (createSecurityTransaction H now rnd ev p uid w)
     = Inr (H (canonical (transactionData ev p uid now (currentBlockNumber w + 1))))
   \<and> fst (createSecurityTransaction id 1001 0 ''login'' (JObj [(''userId'', JNum 5)]) None
            initialWorld)
     = Inr ''{"blockNumber":1,"data":{"userId":5},"eventType":"login","timestamp":1001}''
   \<and> map (\<lambda>t. (txHash t, generateTransactionHash id (data t)))
        (getAllBlockchainTransactions
           (snd (createSecurityTransaction id 1001 0 ''login'' (JObj [(''userId'', JNum 5)]) None
                   initialWorld)))
     = [(''{"blockNumber":1,"data":{"userId":5},"eventType":"login","timestamp":1001}'',
         Inr ''{"blockNumber":1,"data":{},"eventType":"login","timestamp":1001}'')]
   \<and> fst (verifyTransaction id
             ''{"blockNumber":1,"data":{"userId":5},"eventType":"login","timestamp":1001}''
             (snd (createSecurityTransaction id 1001 0 ''login'' (JObj [(''userId'', JNum 5)])
                     None initialWorld)))
     = False\<close>
proof -
  have c: \<open>canonical (transactionData ''login'' (JObj [(''userId'', JNum 5)]) None 1001 1)
     = ''{"blockNumber":1,"data":{"userId":5},"eventType":"login","timestamp":1001}''\<close>
    by (simp add: stringify_eval del: SerializeJSONProperty.simps(7))
  have j: "jsonb (transactionData ''login'' (JObj [(''userId'', JNum 5)]) None 1001 1)
     = JObj [(''eventType'', JStr ''login''), (''data'', JObj [(''userId'', JNum 5)]),
             (''timestamp'', JNum 1001), (''blockNumber'', JNum 1)]"
    by (simp add: transactionData_def)
  have c2: \<open>canonical (JObj [(''eventType'', JStr ''login''), (''data'', JObj [(''userId'', JNum 5)]),
             (''timestamp'', JNum 1001), (''blockNumber'', JNum 1)])
     = ''{"blockNumber":1,"data":{},"eventType":"login","timestamp":1001}''\<close>
    by (simp add: stringify_eval del: SerializeJSONProperty.simps(7))
  have a1: "fst (createSecurityTransaction H now rnd ev p uid w)
     = Inr (H (canonical (transactionData ev p uid now (currentBlockNumber w + 1))))"
    by (simp add: createSecurityTransaction_result)
  have a2: \<open>fst (createSecurityTransaction id 1001 0 ''login'' (JObj [(''userId'', JNum 5)]) None
            initialWorld)
     = Inr ''{"blockNumber":1,"data":{"userId":5},"eventType":"login","timestamp":1001}''\<close>
    by (simp add: createSecurityTransaction_result initialWorld_def c)
  have a3: \<open>map (\<lambda>t. (txHash t, generateTransactionHash id (data t)))
        (getAllBlockchainTransactions
           (snd (createSecurityTransaction id 1001 0 ''login'' (JObj [(''userId'', JNum 5)]) None
                   initialWorld)))
     = [(''{"blockNumber":1,"data":{"userId":5},"eventType":"login","timestamp":1001}'',
         Inr ''{"blockNumber":1,"data":{},"eventType":"login","timestamp":1001}'')]\<close>
    by (simp add: createSecurityTransaction_result initialWorld_def c
        getAllBlockchainTransactions_def readRow_def insertTransaction_def j
        generateTransactionHash_object c2)
  have a4: \<open>fst (verifyTransaction id
             ''{"blockNumber":1,"data":{"userId":5},"eventType":"login","timestamp":1001}''
             (snd (createSecurityTransaction id 1001 0 ''login'' (JObj [(''userId'', JNum 5)])
                     None initialWorld)))
     = False\<close>
    by (simp add: createSecurityTransaction_result initialWorld_def c
        verifyTransaction_def getBlockchainTransaction_def readRow_def insertTransaction_def j
        generateTransactionHash_object c2 createSecurityLog_def criticalLog_def
        split: prod.splits)
  from a1 a2 a3 a4 show ?thesis by blast
qed

section \<open>Verification of stored entries\<close>

lemma createSecurityLog_users:
  "users (snd (createSecurityLog l w)) = users w"
  by (simp add: createSecurityLog_def split: option.splits)














subsection \<open>The example ledgers\<close>
















section \<open>Failed attempts\<close>

text \<open>
  What one \<^verbatim>\<open>recordFailedAttempt\<close> does to each part of the state. The counter is set, and
  at the threshold the address is blocked, before the audit trail is written; the audit
  trail is written for the user id 0, so the call returns only when a user has this id.
\<close>

lemma show_MAX_FAILED_ATTEMPTS: "show_int MAX_FAILED_ATTEMPTS = ''5''"
  by (simp add: MAX_FAILED_ATTEMPTS_def show_int_def show_nat.simps)

lemma recordFailedAttempt_effect:
  "fst (recordFailedAttempt H amb identifier ip w)
     = (if 0 \<in> users w
        then Inr (MAX_FAILED_ATTEMPTS \<le> get_or_zero (failedAttempts w) (compositeKey identifier ip) + 1)
        else Inl ForeignKeyViolation)"
  "blockedIPs (snd (recordFailedAttempt H amb identifier ip w)) =
     (if MAX_FAILED_ATTEMPTS \<le> get_or_zero (failedAttempts w) (compositeKey identifier ip) + 1
      then insert ip (blockedIPs w) else blockedIPs w)"
  "failedAttempts (snd (recordFailedAttempt H amb identifier ip w)) =
     (failedAttempts w)
       (compositeKey identifier ip \<mapsto> get_or_zero (failedAttempts w) (compositeKey identifier ip) + 1)"
  "suspiciousActivities (snd (recordFailedAttempt H amb identifier ip w)) = suspiciousActivities w"
  "rateLimits (snd (recordFailedAttempt H amb identifier ip w)) = rateLimits w"
  "users (snd (recordFailedAttempt H amb identifier ip w)) = users w"
  "currentBlockNumber (snd (recordFailedAttempt H amb identifier ip w)) = currentBlockNumber w + 1"
  "blockchainTransactions (snd (recordFailedAttempt H amb identifier ip w)) =
     blockchainTransactions w @
       [attemptEntry H amb identifier ip
          (get_or_zero (failedAttempts w) (compositeKey identifier ip) + 1)
          (currentBlockNumber w + 1)]"
  by (simp_all add: recordFailedAttempt_def Let_def blockIP_def createAuditTrail_result
      attemptEntry_def show_MAX_FAILED_ATTEMPTS)

lemma recordFailedAttempt_logs:
  "0 \<notin> users w \<Longrightarrow>
   securityLogs (snd (recordFailedAttempt H amb identifier ip w)) = securityLogs w"
  by (simp add: recordFailedAttempt_def Let_def blockIP_def createAuditTrail_result)

lemma recordFailedAttempts_run:
  assumes "0 \<notin> users w"
  shows "fst (recordFailedAttempts H ambs identifier ip w)
           = replicate (length ambs) (Inl ForeignKeyViolation)
   \<and> get_or_zero (failedAttempts (snd (recordFailedAttempts H ambs identifier ip w)))
        (compositeKey identifier ip)
     = get_or_zero (failedAttempts w) (compositeKey identifier ip) + int (length ambs)
   \<and> blockedIPs (snd (recordFailedAttempts H ambs identifier ip w)) =
       (if ambs \<noteq> [] \<and> MAX_FAILED_ATTEMPTS
             \<le> get_or_zero (failedAttempts w) (compositeKey identifier ip) + int (length ambs)
        then insert ip (blockedIPs w) else blockedIPs w)
   \<and> securityLogs (snd (recordFailedAttempts H ambs identifier ip w)) = securityLogs w
   \<and> users (snd (recordFailedAttempts H ambs identifier ip w)) = users w
   \<and> blockchainTransactions (snd (recordFailedAttempts H ambs identifier ip w))
     = blockchainTransactions w @
         attemptEntries H ambs identifier ip
           (get_or_zero (failedAttempts w) (compositeKey identifier ip)) (currentBlockNumber w)"
  using assms
proof (induction ambs arbitrary: w)
  case Nil
  show ?case by simp
next
  case (Cons a ambs)
  let ?c = "get_or_zero (failedAttempts w) (compositeKey identifier ip)"
  obtain r w1 where step: "recordFailedAttempt H a identifier ip w = (r, w1)"
    by (cases "recordFailedAttempt H a identifier ip w")
  from recordFailedAttempt_effect[of H a "identifier" ip w]
    recordFailedAttempt_logs[of w H a "identifier" ip] step Cons.prems
  have r: "r = Inl ForeignKeyViolation"
    and c1: "get_or_zero (failedAttempts w1) (compositeKey identifier ip) = ?c + 1"
    and b1: "blockedIPs w1
               = (if MAX_FAILED_ATTEMPTS \<le> ?c + 1 then insert ip (blockedIPs w) else blockedIPs w)"
    and l1: "securityLogs w1 = securityLogs w"
    and u1: "users w1 = users w"
    and n1: "currentBlockNumber w1 = currentBlockNumber w + 1"
    and t1: "blockchainTransactions w1 = blockchainTransactions w @
               [attemptEntry H a identifier ip (?c + 1) (currentBlockNumber w + 1)]"
    by (simp_all add: get_or_zero_def)
  from u1 Cons.prems have nu: "0 \<notin> users w1" by simp
  obtain rs w' where rest: "recordFailedAttempts H ambs identifier ip w1 = (rs, w')"
    by (cases "recordFailedAttempts H ambs identifier ip w1")
  from Cons.IH[OF nu] rest
  have ih: "rs = replicate (length ambs) (Inl ForeignKeyViolation)"
    "get_or_zero (failedAttempts w') (compositeKey identifier ip) = ?c + 1 + int (length ambs)"
    "blockedIPs w' =
        (if ambs \<noteq> [] \<and> MAX_FAILED_ATTEMPTS \<le> ?c + 1 + int (length ambs)
         then insert ip (blockedIPs w1) else blockedIPs w1)"
    "securityLogs w' = securityLogs w1"
    "users w' = users w1"
    "blockchainTransactions w' = blockchainTransactions w1 @
       attemptEntries H ambs identifier ip (?c + 1) (currentBlockNumber w + 1)"
    unfolding c1 n1 by simp_all
  have run: "recordFailedAttempts H (a # ambs) identifier ip w = (r # rs, w')"
    using step rest by simp
  show ?case
    unfolding run
    using r ih b1 l1 u1 t1
    by auto
qed

text \<open>
  C5. On a database in which no user has the id 0, and the ids of users are counted from
  1, the calls do not return what the claim says: for a key with no failed attempt so far,
  each of five consecutive calls rejects, because the log row of its audit trail names the
  user 0 and is refused. What is done before the log row stays: the counter reaches 5, the
  fifth call blocks the address and the first four do not, and each call leaves its ledger
  entry, two failed logins at low risk, two at medium risk and the block at high risk; no
  log row is written. \<^verbatim>\<open>clearFailedAttempts\<close> leaves the counter of the key at 0, in any
  state.
\<close>

theorem failed_attempts_reject:
  assumes nouser: "0 \<notin> users w"
    and fresh: "get_or_zero (failedAttempts w) (compositeKey identifier ip) = 0"
  shows "fst (recordFailedAttempts H [a1, a2, a3, a4, a5] identifier ip w)
           = [Inl ForeignKeyViolation, Inl ForeignKeyViolation, Inl ForeignKeyViolation,
              Inl ForeignKeyViolation, Inl ForeignKeyViolation]
       \<and> isIPBlocked ip (snd (recordFailedAttempts H [a1, a2, a3, a4, a5] identifier ip w))
       \<and> isIPBlocked ip (snd (recordFailedAttempts H [a1, a2, a3, a4] identifier ip w))
           = isIPBlocked ip w
       \<and> get_or_zero
            (failedAttempts (snd (recordFailedAttempts H [a1, a2, a3, a4, a5] identifier ip w)))
            (compositeKey identifier ip) = 5
       \<and> securityLogs (snd (recordFailedAttempts H [a1, a2, a3, a4, a5] identifier ip w))
           = securityLogs w
       \<and> blockchainTransactions (snd (recordFailedAttempts H [a1, a2, a3, a4, a5] identifier ip w))
           = blockchainTransactions w @
             [auditEntry H a1 0 ''failed_login_attempt''
                (''Failed login attempt 1/5 for '' @ identifier) ''low'' (currentBlockNumber w + 1),
              auditEntry H a2 0 ''failed_login_attempt''
                (''Failed login attempt 2/5 for '' @ identifier) ''low'' (currentBlockNumber w + 2),
              auditEntry H a3 0 ''failed_login_attempt''
                (''Failed login attempt 3/5 for '' @ identifier) ''medium'' (currentBlockNumber w + 3),
              auditEntry H a4 0 ''failed_login_attempt''
                (''Failed login attempt 4/5 for '' @ identifier) ''medium'' (currentBlockNumber w + 4),
              auditEntry H a5 0 ''ip_blocked''
                (''IP '' @ ip @ '' blocked: 5 failed login attempts for '' @ identifier)
                ''high'' (currentBlockNumber w + 5)]
       \<and> get_or_zero (failedAttempts (clearFailedAttempts identifier ip v))
           (compositeKey identifier ip) = 0"
proof -
  note r5 = recordFailedAttempts_run[of w H "[a1, a2, a3, a4, a5]" "identifier" ip, OF nouser,
      unfolded fresh]
  note r4 = recordFailedAttempts_run[of w H "[a1, a2, a3, a4]" "identifier" ip, OF nouser,
      unfolded fresh]
  have rows: "attemptEntries H [a1, a2, a3, a4, a5] identifier ip 0 k =
             [auditEntry H a1 0 ''failed_login_attempt''
                (''Failed login attempt 1/5 for '' @ identifier) ''low'' (k + 1),
              auditEntry H a2 0 ''failed_login_attempt''
                (''Failed login attempt 2/5 for '' @ identifier) ''low'' (k + 2),
              auditEntry H a3 0 ''failed_login_attempt''
                (''Failed login attempt 3/5 for '' @ identifier) ''medium'' (k + 3),
              auditEntry H a4 0 ''failed_login_attempt''
                (''Failed login attempt 4/5 for '' @ identifier) ''medium'' (k + 4),
              auditEntry H a5 0 ''ip_blocked''
                (''IP '' @ ip @ '' blocked: 5 failed login attempts for '' @ identifier)
                ''high'' (k + 5)]" for k
    by (simp add: attemptEntry_def MAX_FAILED_ATTEMPTS_def show_int_def show_nat.simps add.assoc)
  have blocked: "isIPBlocked ip (snd (recordFailedAttempts H [a1, a2, a3, a4, a5] identifier ip w))"
    "isIPBlocked ip (snd (recordFailedAttempts H [a1, a2, a3, a4] identifier ip w))
           = isIPBlocked ip w"
    using r5 r4
    by (simp_all add: isIPBlocked_def MAX_FAILED_ATTEMPTS_def del: recordFailedAttempts.simps)
  have cleared: "get_or_zero (failedAttempts (clearFailedAttempts identifier ip v))
           (compositeKey identifier ip) = 0"
    by (simp add: clearFailedAttempts_def get_or_zero_def)
  from r5 have res: "fst (recordFailedAttempts H [a1, a2, a3, a4, a5] identifier ip w)
           = [Inl ForeignKeyViolation, Inl ForeignKeyViolation, Inl ForeignKeyViolation,
              Inl ForeignKeyViolation, Inl ForeignKeyViolation]"
    "get_or_zero
            (failedAttempts (snd (recordFailedAttempts H [a1, a2, a3, a4, a5] identifier ip w)))
            (compositeKey identifier ip) = 5"
    "securityLogs (snd (recordFailedAttempts H [a1, a2, a3, a4, a5] identifier ip w))
           = securityLogs w"
    by (simp_all del: recordFailedAttempts.simps)
  from r5 have ledger: "blockchainTransactions
       (snd (recordFailedAttempts H [a1, a2, a3, a4, a5] identifier ip w))
     = blockchainTransactions w
         @ attemptEntries H [a1, a2, a3, a4, a5] identifier ip 0 (currentBlockNumber w)"
    by blast
  from res blocked cleared ledger[unfolded rows] show ?thesis
    by blast
qed

theorem failed_attempts_reject_witness:
  "fst (recordFailedAttempts id
          [exampleAmbient, exampleAmbient, exampleAmbient, exampleAmbient, exampleAmbient]
          ''bob'' ''9.9.9.9'' initialWorld)
     = [Inl ForeignKeyViolation, Inl ForeignKeyViolation, Inl ForeignKeyViolation,
        Inl ForeignKeyViolation, Inl ForeignKeyViolation]
   \<and> isIPBlocked ''9.9.9.9''
       (snd (recordFailedAttempts id
          [exampleAmbient, exampleAmbient, exampleAmbient, exampleAmbient, exampleAmbient]
          ''bob'' ''9.9.9.9'' initialWorld))
   \<and> isIPBlocked ''9.9.9.9'' initialWorld = False
   \<and> securityLogs
       (snd (recordFailedAttempts id
          [exampleAmbient, exampleAmbient, exampleAmbient, exampleAmbient, exampleAmbient]
          ''bob'' ''9.9.9.9'' initialWorld)) = []
   \<and> users initialWorld = {}"
  using failed_attempts_reject[of initialWorld "''bob''" "''9.9.9.9''" id
      exampleAmbient exampleAmbient exampleAmbient exampleAmbient exampleAmbient]
  by (simp add: initialWorld_def get_or_zero_def isIPBlocked_def compositeKey_def
      del: recordFailedAttempts.simps)

text \<open>No other method of the service changes the failed-attempt counters.\<close>

lemma snd_case_result:
  "snd (case p of (Inl e, w') \<Rightarrow> (Inl e, w') | (Inr h, w') \<Rightarrow> (f h, w')) = snd p"
  by (simp split: prod.splits sum.splits)

lemma blockIP_snd:
  "snd (blockIP H amb ip reason u w)
     = snd (createAuditTrail H amb (case u of None \<Rightarrow> 0 | Some x \<Rightarrow> x) ''ip_blocked''
              (''IP '' @ ip @ '' blocked: '' @ reason) ''high''
              (w\<lparr>blockedIPs := insert ip (blockedIPs w)\<rparr>))"
  by (simp add: blockIP_def snd_case_result)

lemma recordSuspiciousActivity_failedAttempts:
  "failedAttempts (snd (recordSuspiciousActivity H amb amb' subject activityType desc ip w))
     = failedAttempts w"
proof -
  let ?key = "compositeKey (case subject of Inl s \<Rightarrow> s | Inr n \<Rightarrow> show_int n) activityType"
  let ?n = "get_or_zero (suspiciousActivities w) ?key + 1"
  let ?w1 = "w\<lparr>suspiciousActivities := (suspiciousActivities w)(?key \<mapsto> ?n)\<rparr>"
  let ?a = "createAuditTrail H amb (case subject of Inl s \<Rightarrow> 0 | Inr n \<Rightarrow> n)
                ''suspicious_activity''
                (activityType @ '': '' @ desc @ '' (occurrence: '' @ show_int ?n @ '')'')
                (if ?n > SUSPICIOUS_THRESHOLD then ''critical''
                  else if ?n > 5 then ''high'' else ''medium'') ?w1"
  obtain r w2 where a: "?a = (r, w2)" by (cases ?a)
  then have f: "failedAttempts w2 = failedAttempts w"
    using createAuditTrail_effect(9)[of H amb "(case subject of Inl s \<Rightarrow> 0 | Inr n \<Rightarrow> n)"
        "''suspicious_activity''"
        "activityType @ '': '' @ desc @ '' (occurrence: '' @ show_int ?n @ '')''"
        "(if ?n > SUSPICIOUS_THRESHOLD then ''critical''
                  else if ?n > 5 then ''high'' else ''medium'')" ?w1]
    by simp
  have "recordSuspiciousActivity H amb amb' subject activityType desc ip w =
      (case r of Inl e \<Rightarrow> (Inl e, w2)
       | Inr h \<Rightarrow> if ?n > SUSPICIOUS_THRESHOLD
                  then blockIP H amb' ip
                    (''Suspicious activity threshold exceeded: '' @ activityType) None w2
                  else (Inr (), w2))"
    unfolding recordSuspiciousActivity_def Let_def a by (simp split: sum.splits)
  then show ?thesis
    by (cases r) (simp_all add: f blockIP_snd createAuditTrail_effect)
qed

lemma detectIntrusion_snd:
  "snd (detectIntrusion H amb uid activity metadata w) = w
   \<or> (\<exists>desc lvl. snd (detectIntrusion H amb uid activity metadata w)
         = snd (createAuditTrail H amb uid ''intrusion_detected'' desc lvl w))"
proof -
  let ?g1 = "if string_includes activity ''permission''
             then get_property metadata ''unusual_pattern'' else Inr JUndefined"
  let ?g2 = "if string_includes activity ''file_access''
             then get_property metadata ''suspicious_size'' else Inr JUndefined"
  show ?thesis
  proof (cases ?g1)
    case (Inl e)
    then show ?thesis
      unfolding detectIntrusion_def Let_def by simp
  next
    case u: (Inr unusual)
    show ?thesis
    proof (cases ?g2)
      case (Inl e)
      then show ?thesis
        unfolding detectIntrusion_def Let_def u by simp
    next
      case s: (Inr suspicious)
      show ?thesis
        unfolding detectIntrusion_def Let_def u s
        by (cases "20 < get_or_zero (suspiciousActivities w)
                           (compositeKey (show_int uid) ''rapid_activity'')";
            cases "truthy unusual"; cases "truthy suspicious")
           (simp_all add: snd_case_result, blast+)
    qed
  qed
qed

lemma failedAttempts_frame:
  "failedAttempts (snd (createAuditTrail H amb uid ev desc risk w)) = failedAttempts w"
  "failedAttempts (snd (blockIP H amb ip reason u w)) = failedAttempts w"
  "failedAttempts (snd (recordSuspiciousActivity H amb amb' subject activityType desc ip w))
     = failedAttempts w"
  "failedAttempts (snd (checkRateLimit H now amb amb' identifier ip w)) = failedAttempts w"
  "failedAttempts (snd (detectIntrusion H amb uid activity metadata w)) = failedAttempts w"
proof -
  show "failedAttempts (snd (createAuditTrail H amb uid ev desc risk w)) = failedAttempts w"
    by (simp add: createAuditTrail_effect)
  show "failedAttempts (snd (blockIP H amb ip reason u w)) = failedAttempts w"
    by (simp add: blockIP_snd createAuditTrail_effect)
  show "failedAttempts (snd (recordSuspiciousActivity H amb amb' subject activityType desc ip w))
     = failedAttempts w"
    by (rule recordSuspiciousActivity_failedAttempts)
  show "failedAttempts (snd (checkRateLimit H now amb amb' identifier ip w)) = failedAttempts w"
    by (simp add: checkRateLimit_def Let_def snd_case_result
        recordSuspiciousActivity_failedAttempts split: option.splits)
  show "failedAttempts (snd (detectIntrusion H amb uid activity metadata w)) = failedAttempts w"
    using detectIntrusion_snd[of H amb uid activity metadata w]
    by (auto simp: createAuditTrail_effect)
qed

text \<open>
  C10. On a database in which no user has the id 0: once the counter of a key has reached
  the threshold, a further \<^verbatim>\<open>recordFailedAttempt\<close> for it blocks the address again and
  writes the ledger entry of another block at high risk, and then rejects instead of
  returning true, because the log row names the user 0 and is refused; no log row is
  written. So does every call of a run of further calls, and the counter keeps growing by
  one per call. In any state a call adds one to the counter of its own key and leaves
  every other counter as it is, and \<^verbatim>\<open>blockIP\<close>, \<^verbatim>\<open>checkRateLimit\<close>,
  \<^verbatim>\<open>recordSuspiciousActivity\<close> and \<^verbatim>\<open>detectIntrusion\<close> leave all counters as they are.
\<close>

theorem blocking_after_threshold_rejects:
  assumes nouser: "0 \<notin> users w"
    and reached: "MAX_FAILED_ATTEMPTS \<le> get_or_zero (failedAttempts w) (compositeKey identifier ip)"
  shows "fst (recordFailedAttempt H amb identifier ip w) = Inl ForeignKeyViolation
       \<and> isIPBlocked ip (snd (recordFailedAttempt H amb identifier ip w))
       \<and> blockchainTransactions (snd (recordFailedAttempt H amb identifier ip w))
           = blockchainTransactions w @
             [auditEntry H amb 0 ''ip_blocked''
                (''IP '' @ ip @ '' blocked: 5 failed login attempts for '' @ identifier)
                ''high'' (currentBlockNumber w + 1)]
       \<and> securityLogs (snd (recordFailedAttempt H amb identifier ip w)) = securityLogs w
       \<and> fst (recordFailedAttempts H ambs identifier ip w)
           = replicate (length ambs) (Inl ForeignKeyViolation)
       \<and> get_or_zero (failedAttempts (snd (recordFailedAttempts H ambs identifier ip w)))
           (compositeKey identifier ip)
           = get_or_zero (failedAttempts w) (compositeKey identifier ip) + int (length ambs)
       \<and> securityLogs (snd (recordFailedAttempts H ambs identifier ip w)) = securityLogs w
       \<and> blockchainTransactions (snd (recordFailedAttempts H ambs identifier ip w))
           = blockchainTransactions w @
             attemptEntries H ambs identifier ip
               (get_or_zero (failedAttempts w) (compositeKey identifier ip)) (currentBlockNumber w)
       \<and> get_or_zero (failedAttempts (snd (recordFailedAttempt H amb' identifier' ip' v))) key
           = get_or_zero (failedAttempts v) key
             + (if key = compositeKey identifier' ip' then 1 else 0)
       \<and> failedAttempts (snd (blockIP H amb' ip' reason u v)) = failedAttempts v
       \<and> failedAttempts (snd (checkRateLimit H now amb' amb'' identifier' ip' v)) = failedAttempts v
       \<and> failedAttempts (snd (recordSuspiciousActivity H amb' amb'' subject activityType desc ip' v))
           = failedAttempts v
       \<and> failedAttempts (snd (detectIntrusion H amb' uid activity metadata v)) = failedAttempts v"
proof -
  note run = recordFailedAttempts_run[of w H ambs "identifier" ip, OF nouser]
  have one: "fst (recordFailedAttempt H amb identifier ip w) = Inl ForeignKeyViolation"
    "isIPBlocked ip (snd (recordFailedAttempt H amb identifier ip w))"
    "securityLogs (snd (recordFailedAttempt H amb identifier ip w)) = securityLogs w"
    using nouser reached
    by (simp_all add: isIPBlocked_def recordFailedAttempt_effect recordFailedAttempt_logs)
  have row: "blockchainTransactions (snd (recordFailedAttempt H amb identifier ip w))
           = blockchainTransactions w @
             [auditEntry H amb 0 ''ip_blocked''
                (''IP '' @ ip @ '' blocked: 5 failed login attempts for '' @ identifier)
                ''high'' (currentBlockNumber w + 1)]"
    using reached by (simp add: recordFailedAttempt_effect attemptEntry_def)
  have mono: "get_or_zero (failedAttempts (snd (recordFailedAttempt H amb' identifier' ip' v))) key
           = get_or_zero (failedAttempts v) key + (if key = compositeKey identifier' ip' then 1 else 0)"
    by (simp add: recordFailedAttempt_effect get_or_zero_def)
  show ?thesis
    using run one row mono
    by (simp add: failedAttempts_frame)
qed

theorem blocking_after_threshold_rejects_witness:
  "fst (recordFailedAttempts id [exampleAmbient, exampleAmbient] ''bob'' ''9.9.9.9''
          (snd (recordFailedAttempts id
                  [exampleAmbient, exampleAmbient, exampleAmbient, exampleAmbient, exampleAmbient]
                  ''bob'' ''9.9.9.9'' initialWorld)))
     = [Inl ForeignKeyViolation, Inl ForeignKeyViolation]
   \<and> get_or_zero
        (failedAttempts
           (snd (recordFailedAttempts id [exampleAmbient, exampleAmbient] ''bob'' ''9.9.9.9''
              (snd (recordFailedAttempts id
                  [exampleAmbient, exampleAmbient, exampleAmbient, exampleAmbient, exampleAmbient]
                  ''bob'' ''9.9.9.9'' initialWorld)))))
        (compositeKey ''bob'' ''9.9.9.9'') = 7"
proof -
  have nu: "0 \<notin> users initialWorld"
    by (simp add: initialWorld_def)
  note five = recordFailedAttempts_run[of initialWorld id
        "[exampleAmbient, exampleAmbient, exampleAmbient, exampleAmbient, exampleAmbient]"
        "''bob''" "''9.9.9.9''", OF nu]
  have c5: "get_or_zero (failedAttempts (snd (recordFailedAttempts id
                  [exampleAmbient, exampleAmbient, exampleAmbient, exampleAmbient, exampleAmbient]
                  ''bob'' ''9.9.9.9'' initialWorld))) (compositeKey ''bob'' ''9.9.9.9'') = 5"
    using five by (simp add: initialWorld_def get_or_zero_def del: recordFailedAttempts.simps)
  have nu5: "0 \<notin> users (snd (recordFailedAttempts id
                  [exampleAmbient, exampleAmbient, exampleAmbient, exampleAmbient, exampleAmbient]
                  ''bob'' ''9.9.9.9'' initialWorld))"
    using five nu by (simp del: recordFailedAttempts.simps)
  have reached: "MAX_FAILED_ATTEMPTS \<le> get_or_zero (failedAttempts (snd (recordFailedAttempts id
                  [exampleAmbient, exampleAmbient, exampleAmbient, exampleAmbient, exampleAmbient]
                  ''bob'' ''9.9.9.9'' initialWorld))) (compositeKey ''bob'' ''9.9.9.9'')"
    unfolding c5 by (simp add: MAX_FAILED_ATTEMPTS_def)
  from blocking_after_threshold_rejects[OF nu5 reached, where H = id and amb = exampleAmbient
      and ambs = "[exampleAmbient, exampleAmbient]"]
  show ?thesis
    by (simp add: c5 del: recordFailedAttempts.simps)
qed

section \<open>Rate limiting\<close>

text \<open>
  \<^verbatim>\<open>recordSuspiciousActivity\<close> for an identifier that is a string writes its audit trail
  for the user id 0. Without such a user it counts the activity, leaves the ledger entry
  and rejects; the block that follows above the threshold is not reached.
\<close>

lemma recordSuspiciousActivity_rejected:
  assumes "0 \<notin> users w"
  shows "fst (recordSuspiciousActivity H amb amb' (Inl s) activityType desc ip w)
           = Inl ForeignKeyViolation"
    and "rateLimits (snd (recordSuspiciousActivity H amb amb' (Inl s) activityType desc ip w))
           = rateLimits w"
    and "blockedIPs (snd (recordSuspiciousActivity H amb amb' (Inl s) activityType desc ip w))
           = blockedIPs w"
    and "securityLogs (snd (recordSuspiciousActivity H amb amb' (Inl s) activityType desc ip w))
           = securityLogs w"
    and "suspiciousActivities (snd (recordSuspiciousActivity H amb amb' (Inl s) activityType desc ip w))
           = (suspiciousActivities w)
               (compositeKey s activityType \<mapsto>
                  get_or_zero (suspiciousActivities w) (compositeKey s activityType) + 1)"
    and "blockchainTransactions
           (snd (recordSuspiciousActivity H amb amb' (Inl s) activityType desc ip w))
           = blockchainTransactions w @
               [auditEntry H amb 0 ''suspicious_activity''
                  (activityType @ '': '' @ desc @ '' (occurrence: ''
                     @ show_int (get_or_zero (suspiciousActivities w) (compositeKey s activityType) + 1)
                     @ '')'')
                  (if SUSPICIOUS_THRESHOLD
                        < get_or_zero (suspiciousActivities w) (compositeKey s activityType) + 1
                   then ''critical''
                   else if 5 < get_or_zero (suspiciousActivities w) (compositeKey s activityType) + 1
                   then ''high'' else ''medium'')
                  (currentBlockNumber w + 1)]"
  using assms
  by (simp_all add: recordSuspiciousActivity_def Let_def createAuditTrail_result)

lemma checkRateLimit_new_window:
  assumes "rateLimits w (compositeKey identifier ip) = None
           \<or> (\<exists>l. rateLimits w (compositeKey identifier ip) = Some l \<and> resetTime l < now)"
  shows "checkRateLimit H now amb amb' identifier ip w =
     (Inr True,
      w\<lparr>rateLimits := (rateLimits w)
           (compositeKey identifier ip \<mapsto> \<lparr> count = 1, resetTime = now + RATE_LIMIT_WINDOW \<rparr>)\<rparr>)"
  using assms by (auto simp: checkRateLimit_def)

lemma checkRateLimit_within:
  assumes "rateLimits w (compositeKey identifier ip) = Some l"
    and "now \<le> resetTime l" and "count l < MAX_REQUESTS_PER_MINUTE"
  shows "checkRateLimit H now amb amb' identifier ip w =
     (Inr True,
      w\<lparr>rateLimits := (rateLimits w)(compositeKey identifier ip \<mapsto> l\<lparr>count := count l + 1\<rparr>)\<rparr>)"
  using assms by (simp add: checkRateLimit_def)

lemma checkRateLimit_exceeded:
  assumes "rateLimits w (compositeKey identifier ip) = Some l"
    and "now \<le> resetTime l" and "MAX_REQUESTS_PER_MINUTE \<le> count l"
  shows "checkRateLimit H now amb amb' identifier ip w =
     (case recordSuspiciousActivity H amb amb' (Inl identifier) ''rate_limit_exceeded''
             (''Rate limit exceeded: '' @ show_int (count l) @ '' requests'') ip w of
        (Inl e, w') \<Rightarrow> (Inl e, w')
      | (Inr u, w') \<Rightarrow> (Inr False, w'))"
  using assms by (simp add: checkRateLimit_def)

lemma checkRateLimit_exceeded_rejected:
  assumes "rateLimits w (compositeKey identifier ip) = Some l"
    and "now \<le> resetTime l" and "MAX_REQUESTS_PER_MINUTE \<le> count l"
    and "0 \<notin> users w"
  shows "checkRateLimit H now amb amb' identifier ip w =
     (Inl ForeignKeyViolation,
      snd (recordSuspiciousActivity H amb amb' (Inl identifier) ''rate_limit_exceeded''
             (''Rate limit exceeded: '' @ show_int (count l) @ '' requests'') ip w))"
proof -
  let ?r = "recordSuspiciousActivity H amb amb' (Inl identifier) ''rate_limit_exceeded''
              (''Rate limit exceeded: '' @ show_int (count l) @ '' requests'') ip w"
  obtain u w' where r: "?r = (u, w')" by (cases ?r)
  with recordSuspiciousActivity_rejected(1)[OF assms(4), of H amb amb' "identifier"
      "''rate_limit_exceeded''" "''Rate limit exceeded: '' @ show_int (count l) @ '' requests''" ip]
  have u: "u = Inl ForeignKeyViolation" by simp
  show ?thesis
    unfolding checkRateLimit_exceeded[OF assms(1,2,3)] r u by simp
qed

lemma checkRateLimits_within_run:
  assumes "rateLimits w (compositeKey identifier ip) = Some l"
    and "\<forall>c\<in>set calls. fst c \<le> resetTime l"
    and "count l + int (length calls) \<le> MAX_REQUESTS_PER_MINUTE"
  shows "fst (checkRateLimits H calls identifier ip w) = replicate (length calls) (Inr True)
       \<and> rateLimits (snd (checkRateLimits H calls identifier ip w)) (compositeKey identifier ip)
           = Some (l\<lparr>count := count l + int (length calls)\<rparr>)
       \<and> suspiciousActivities (snd (checkRateLimits H calls identifier ip w))
           = suspiciousActivities w
       \<and> securityLogs (snd (checkRateLimits H calls identifier ip w)) = securityLogs w
       \<and> blockchainTransactions (snd (checkRateLimits H calls identifier ip w))
           = blockchainTransactions w
       \<and> currentBlockNumber (snd (checkRateLimits H calls identifier ip w)) = currentBlockNumber w
       \<and> blockedIPs (snd (checkRateLimits H calls identifier ip w)) = blockedIPs w
       \<and> users (snd (checkRateLimits H calls identifier ip w)) = users w"
  using assms
proof (induction calls arbitrary: w l)
  case Nil
  then show ?case by simp
next
  case (Cons c calls)
  obtain now amb amb' where c: "c = (now, amb, amb')" by (cases c)
  from Cons.prems c have now: "now \<le> resetTime l" and lt: "count l < MAX_REQUESTS_PER_MINUTE"
    by simp_all
  let ?l1 = "l\<lparr>count := count l + 1\<rparr>"
  let ?w1 = "w\<lparr>rateLimits := (rateLimits w)(compositeKey identifier ip \<mapsto> ?l1)\<rparr>"
  have step: "checkRateLimit H now amb amb' identifier ip w = (Inr True, ?w1)"
    by (rule checkRateLimit_within[OF Cons.prems(1) now lt])
  have pre: "rateLimits ?w1 (compositeKey identifier ip) = Some ?l1"
    "\<forall>c\<in>set calls. fst c \<le> resetTime ?l1"
    "count ?l1 + int (length calls) \<le> MAX_REQUESTS_PER_MINUTE"
    using Cons.prems by simp_all
  obtain rs w' where rest: "checkRateLimits H calls identifier ip ?w1 = (rs, w')"
    by (cases "checkRateLimits H calls identifier ip ?w1")
  from Cons.IH[OF pre] rest
  have ih: "rs = replicate (length calls) (Inr True)"
    "rateLimits w' (compositeKey identifier ip)
       = Some (?l1\<lparr>count := count ?l1 + int (length calls)\<rparr>)"
    "suspiciousActivities w' = suspiciousActivities w"
    "securityLogs w' = securityLogs w"
    "blockchainTransactions w' = blockchainTransactions w"
    "currentBlockNumber w' = currentBlockNumber w"
    "blockedIPs w' = blockedIPs w"
    "users w' = users w"
    by simp_all
  have run: "checkRateLimits H (c # calls) identifier ip w
               = (Inr True # replicate (length calls) (Inr True), w')"
    unfolding c using step rest ih(1) by simp
  show ?case
    unfolding run using ih(2-) by (simp add: add.assoc)
qed

lemma checkRateLimits_append:
  "checkRateLimits H (xs @ ys) identifier ip w =
     (case checkRateLimits H xs identifier ip w of
        (rs, w') \<Rightarrow>
          (case checkRateLimits H ys identifier ip w' of
             (rs', w'') \<Rightarrow> (rs @ rs', w'')))"
  by (induction xs arbitrary: w) (auto split: prod.splits)

text \<open>
  C6. On a database in which no user has the id 0: for a key without a window, with the
  limit of 100 calls per window of 60000 ms, the first call opens a window at its time
  \<open>t0\<close>, and it and the next 99 calls read at times up to \<open>t0 + 60000\<close> return true. The
  following call in the window does not return false: it counts one suspicious activity
  for the identifier, leaves the ledger entry of its audit trail, and rejects, because the
  log row names the user 0 and is refused; no log row is written and no address is
  blocked. A call read after \<open>t0 + 60000\<close> returns true and starts a new window with
  count 1.
\<close>

theorem rate_limit_excess_rejects:
  assumes nouser: "0 \<notin> users w"
    and fresh: "rateLimits w (compositeKey identifier ip) = None"
    and len: "int (length rest) = MAX_REQUESTS_PER_MINUTE - 1"
    and window: "\<forall>c\<in>set (rest @ [(tm, am, bm)]). fst c \<le> t0 + RATE_LIMIT_WINDOW"
    and later: "t0 + RATE_LIMIT_WINDOW < tn"
  shows "fst (checkRateLimits H ((t0, a0, b0) # rest @ [(tm, am, bm)]) identifier ip w)
           = replicate (nat MAX_REQUESTS_PER_MINUTE) (Inr True) @ [Inl ForeignKeyViolation]
       \<and> get_or_zero
            (suspiciousActivities
               (snd (checkRateLimits H ((t0, a0, b0) # rest @ [(tm, am, bm)]) identifier ip w)))
            (compositeKey identifier ''rate_limit_exceeded'')
           = get_or_zero (suspiciousActivities w) (compositeKey identifier ''rate_limit_exceeded'') + 1
       \<and> securityLogs
            (snd (checkRateLimits H ((t0, a0, b0) # rest @ [(tm, am, bm)]) identifier ip w))
           = securityLogs w
       \<and> blockedIPs
            (snd (checkRateLimits H ((t0, a0, b0) # rest @ [(tm, am, bm)]) identifier ip w))
           = blockedIPs w
       \<and> blockchainTransactions
            (snd (checkRateLimits H ((t0, a0, b0) # rest @ [(tm, am, bm)]) identifier ip w))
           = blockchainTransactions w @
               [auditEntry H am 0 ''suspicious_activity''
                  (''rate_limit_exceeded: Rate limit exceeded: 100 requests (occurrence: ''
                     @ show_int (get_or_zero (suspiciousActivities w)
                                   (compositeKey identifier ''rate_limit_exceeded'') + 1)
                     @ '')'')
                  (if SUSPICIOUS_THRESHOLD
                        < get_or_zero (suspiciousActivities w)
                            (compositeKey identifier ''rate_limit_exceeded'') + 1
                   then ''critical''
                   else if 5 < get_or_zero (suspiciousActivities w)
                                 (compositeKey identifier ''rate_limit_exceeded'') + 1
                   then ''high'' else ''medium'')
                  (currentBlockNumber w + 1)]
       \<and> fst (checkRateLimit H tn an bn identifier ip
                 (snd (checkRateLimits H ((t0, a0, b0) # rest @ [(tm, am, bm)]) identifier ip w)))
           = Inr True
       \<and> rateLimits
            (snd (checkRateLimit H tn an bn identifier ip
                    (snd (checkRateLimits H ((t0, a0, b0) # rest @ [(tm, am, bm)]) identifier ip w))))
            (compositeKey identifier ip)
           = Some \<lparr> count = 1, resetTime = tn + RATE_LIMIT_WINDOW \<rparr>"
proof -
  let ?k = "compositeKey identifier ip"
  let ?l0 = "\<lparr> count = 1, resetTime = t0 + RATE_LIMIT_WINDOW \<rparr>"
  let ?w0 = "w\<lparr>rateLimits := (rateLimits w)(?k \<mapsto> ?l0)\<rparr>"
  have first: "checkRateLimit H t0 a0 b0 identifier ip w = (Inr True, ?w0)"
    using fresh by (intro checkRateLimit_new_window) simp
  obtain rs w1 where mid: "checkRateLimits H rest identifier ip ?w0 = (rs, w1)"
    by (cases "checkRateLimits H rest identifier ip ?w0")
  have pre: "rateLimits ?w0 ?k = Some ?l0" "\<forall>c\<in>set rest. fst c \<le> resetTime ?l0"
    "count ?l0 + int (length rest) \<le> MAX_REQUESTS_PER_MINUTE"
    using window len by simp_all
  from checkRateLimits_within_run[OF pre, of H] mid
  have m: "rs = replicate (length rest) (Inr True)"
    "rateLimits w1 ?k = Some (?l0\<lparr>count := MAX_REQUESTS_PER_MINUTE\<rparr>)"
    "suspiciousActivities w1 = suspiciousActivities w"
    "securityLogs w1 = securityLogs w"
    "blockchainTransactions w1 = blockchainTransactions w"
    "currentBlockNumber w1 = currentBlockNumber w"
    "blockedIPs w1 = blockedIPs w"
    "users w1 = users w"
    using len by simp_all
  from window have tm: "tm \<le> resetTime (?l0\<lparr>count := MAX_REQUESTS_PER_MINUTE\<rparr>)"
    by simp
  have full: "MAX_REQUESTS_PER_MINUTE \<le> count (?l0\<lparr>count := MAX_REQUESTS_PER_MINUTE\<rparr>)"
    by simp
  from nouser m(8) have nu1: "0 \<notin> users w1" by simp
  let ?s = "recordSuspiciousActivity H am bm (Inl identifier) ''rate_limit_exceeded''
             (''Rate limit exceeded: ''
                @ show_int (count (?l0\<lparr>count := MAX_REQUESTS_PER_MINUTE\<rparr>)) @ '' requests'')
             ip w1"
  have lastc: "checkRateLimit H tm am bm identifier ip w1 = (Inl ForeignKeyViolation, snd ?s)"
    by (rule checkRateLimit_exceeded_rejected[OF m(2) tm full nu1])
  note s = recordSuspiciousActivity_rejected[OF nu1, of H am bm "identifier"
      "''rate_limit_exceeded''"
      "''Rate limit exceeded: ''
         @ show_int (count (?l0\<lparr>count := MAX_REQUESTS_PER_MINUTE\<rparr>)) @ '' requests''" ip]
  have n: "Suc (length rest) = nat MAX_REQUESTS_PER_MINUTE"
    using len by simp
  have run: "checkRateLimits H ((t0, a0, b0) # rest @ [(tm, am, bm)]) identifier ip w
      = (replicate (nat MAX_REQUESTS_PER_MINUTE) (Inr True) @ [Inl ForeignKeyViolation], snd ?s)"
    using first mid m(1) lastc
    by (simp add: checkRateLimits_append n[symmetric] replicate_append_same)
  have again: "checkRateLimit H tn an bn identifier ip (snd ?s) =
     (Inr True,
      (snd ?s)\<lparr>rateLimits := (rateLimits (snd ?s))
           (?k \<mapsto> \<lparr> count = 1, resetTime = tn + RATE_LIMIT_WINDOW \<rparr>)\<rparr>)"
    using later s(2) m(2) by (intro checkRateLimit_new_window) simp
  have hundred: "show_int MAX_REQUESTS_PER_MINUTE = ''100''"
    by (simp add: MAX_REQUESTS_PER_MINUTE_def show_int_def show_nat.simps)
  show ?thesis
    unfolding run snd_conv fst_conv again
    using s(3,4,5,6) m(3,4,5,6,7)
    by (simp add: get_or_zero_def hundred)
qed

theorem rate_limit_excess_rejects_witness:
  "fst (checkRateLimits id
          ((0, exampleAmbient, exampleAmbient)
             # replicate 99 (10, exampleAmbient, exampleAmbient)
             @ [(60000, exampleAmbient, exampleAmbient)])
          ''a'' ''1.2.3.4'' initialWorld)
     = replicate 100 (Inr True) @ [Inl ForeignKeyViolation]
   \<and> fst (checkRateLimit id 60001 exampleAmbient exampleAmbient ''a'' ''1.2.3.4''
            (snd (checkRateLimits id
                    ((0, exampleAmbient, exampleAmbient)
                       # replicate 99 (10, exampleAmbient, exampleAmbient)
                       @ [(60000, exampleAmbient, exampleAmbient)])
                    ''a'' ''1.2.3.4'' initialWorld)))
     = Inr True
   \<and> users initialWorld = {}"
proof -
  have nouser: "0 \<notin> users initialWorld"
    by (simp add: initialWorld_def)
  have fresh: "rateLimits initialWorld (compositeKey ''a'' ''1.2.3.4'') = None"
    by (simp add: initialWorld_def)
  have len: "int (length (replicate 99 (10::int, exampleAmbient, exampleAmbient)))
               = MAX_REQUESTS_PER_MINUTE - 1"
    by (simp add: MAX_REQUESTS_PER_MINUTE_def)
  have window: "\<forall>c\<in>set (replicate 99 (10::int, exampleAmbient, exampleAmbient)
                          @ [(60000, exampleAmbient, exampleAmbient)]).
                  fst c \<le> 0 + RATE_LIMIT_WINDOW"
    by (simp add: RATE_LIMIT_WINDOW_def)
  have later: "0 + RATE_LIMIT_WINDOW < 60001"
    by (simp add: RATE_LIMIT_WINDOW_def)
  have n: "nat MAX_REQUESTS_PER_MINUTE = 100"
    by (simp add: MAX_REQUESTS_PER_MINUTE_def)
  have u: "users initialWorld = {}"
    by (simp add: initialWorld_def)
  from rate_limit_excess_rejects[OF nouser fresh len window later, of id exampleAmbient
      exampleAmbient exampleAmbient exampleAmbient]
  show ?thesis
    unfolding n using u by blast
qed

section \<open>Intrusion scoring\<close>

lemma truthy_undefined: "\<not> truthy JUndefined"
  by (simp add: truthy_def)

lemma get_property_defined:
  "metadata \<noteq> JNull \<Longrightarrow> metadata \<noteq> JUndefined \<Longrightarrow> \<exists>v. get_property metadata name = Inr v"
  by (cases metadata) (simp_all add: get_property_def)

text \<open>
  C7, for metadata other than \<^verbatim>\<open>null\<close> and \<^verbatim>\<open>undefined\<close> and the id of an existing user.
  \<^verbatim>\<open>detectIntrusion\<close> returns the threat flag, level and action that the scoring of the
  specification gives for the number of matched signals, of which there are at most three.
  With no match the state is left as it is; otherwise one audit record
  \<^verbatim>\<open>intrusion_detected\<close> is written at the level returned, with its ledger entry.
\<close>

theorem intrusion_scoring:
  assumes "metadata \<noteq> JNull" and "metadata \<noteq> JUndefined" and "uid \<in> users w"
  shows "fst (detectIntrusion H amb uid activity metadata w)
           = Inr \<lparr> threat = (spec_signal_count w uid activity metadata \<noteq> 0),
                   level = spec_level (spec_signal_count w uid activity metadata),
                   action = spec_action (spec_level (spec_signal_count w uid activity metadata)) \<rparr>
       \<and> map (\<lambda>l. (eventType l, riskLevel l))
            (drop (length (securityLogs w))
               (securityLogs (snd (detectIntrusion H amb uid activity metadata w))))
           = (if spec_signal_count w uid activity metadata = 0 then []
              else [(''intrusion_detected'',
                     spec_level (spec_signal_count w uid activity metadata))])
       \<and> (if spec_signal_count w uid activity metadata = 0
           then snd (detectIntrusion H amb uid activity metadata w) = w
           else length (blockchainTransactions (snd (detectIntrusion H amb uid activity metadata w)))
                  = Suc (length (blockchainTransactions w)))
       \<and> spec_signal_count w uid activity metadata \<le> 3
       \<and> spec_level 0 = ''none'' \<and> spec_level 1 = ''medium'' \<and> spec_level 2 = ''high''
       \<and> spec_level 3 = ''critical''
       \<and> spec_action ''none'' = ''continue'' \<and> spec_action ''medium'' = ''monitor''
       \<and> spec_action ''high'' = ''require_verification''
       \<and> spec_action ''critical'' = ''block_user''"
proof -
  from get_property_defined[OF assms(1,2)] obtain u where u: "get_property metadata ''unusual_pattern'' = Inr u"
    by blast
  from get_property_defined[OF assms(1,2)] obtain s where s: "get_property metadata ''suspicious_size'' = Inr s"
    by blast
  show ?thesis
    using assms(3)
    by (cases "20 < get_or_zero (suspiciousActivities w) (compositeKey (show_int uid) ''rapid_activity'')";
        cases "string_includes activity ''permission''"; cases "truthy u";
        cases "string_includes activity ''file_access''"; cases "truthy s")
      (simp_all add: detectIntrusion_def Let_def u s spec_signal_count_def spec_signals_def
        spec_level_def spec_action_def createAuditTrail_result auditLog_def truthy_undefined)
qed

theorem intrusion_scoring_witness:
  "fst (detectIntrusion id exampleAmbient 7 ''permission_file_access''
          (JObj [(''unusual_pattern'', JBool True), (''suspicious_size'', JNum 0)])
          oneUserWorld)
     = Inr \<lparr> threat = True, level = ''medium'', action = ''monitor'' \<rparr>
   \<and> map (\<lambda>l. (eventType l, riskLevel l))
        (securityLogs (snd (detectIntrusion id exampleAmbient 7 ''permission_file_access''
          (JObj [(''unusual_pattern'', JBool True), (''suspicious_size'', JNum 0)])
          oneUserWorld)))
     = [(''intrusion_detected'', ''medium'')]"
  using intrusion_scoring[of "JObj [(''unusual_pattern'', JBool True), (''suspicious_size'', JNum 0)]"
      7 oneUserWorld id exampleAmbient "''permission_file_access''"]
  by (simp add: spec_signal_count_def spec_signals_def spec_level_def spec_action_def
      get_property_def truthy_def get_or_zero_def oneUserWorld_def initialWorld_def)

text \<open>
  C7 as stated, for every metadata and every user id, fails twice. With \<^verbatim>\<open>null\<close> metadata
  and an activity that names a permission, reading the flag throws and the call returns no
  result. And for a user id that names no user, a call with a matched signal rejects,
  because the log row of the audit record is refused; the ledger entry stays.
\<close>

theorem intrusion_null_metadata_counterexample:
  "detectIntrusion id exampleAmbient 7 ''permission_request'' JNull initialWorld
     = (Inl TypeError, initialWorld)
   \<and> fst (detectIntrusion id exampleAmbient 7 ''permission_request''
            (JObj [(''unusual_pattern'', JBool True)]) initialWorld)
     = Inl ForeignKeyViolation
   \<and> length (blockchainTransactions
        (snd (detectIntrusion id exampleAmbient 7 ''permission_request''
                (JObj [(''unusual_pattern'', JBool True)]) initialWorld))) = 1
   \<and> securityLogs
        (snd (detectIntrusion id exampleAmbient 7 ''permission_request''
                (JObj [(''unusual_pattern'', JBool True)]) initialWorld)) = []"
  by (simp add: detectIntrusion_def Let_def get_property_def truthy_def get_or_zero_def
      initialWorld_def createAuditTrail_result)

section \<open>Key material\<close>

text \<open>
  C8, as the code has it. With no key argument (absent or empty) and no configured key
  (absent or empty) \<^verbatim>\<open>encryptData\<close> fails with the configuration error, and so do
  \<^verbatim>\<open>encryptPrivateKey\<close> and \<^verbatim>\<open>decryptPrivateKey\<close> without the master key, for every input.
  Otherwise the result is computed with the key argument when there is one, else with the
  configured key; there is no other key.
\<close>

theorem key_material_required:
  assumes "key = None \<or> key = Some []"
    and "missing = None \<or> missing = Some []"
    and "k \<noteq> []"
  shows "encryptData enc missing plaintext key = Inl ConfigurationError
       \<and> encryptPrivateKey enc missing privateKey = Inl ConfigurationError
       \<and> decryptPrivateKey dec missing encryptedKey = Inl ConfigurationError
       \<and> encryptData enc anyKey plaintext (Some k) = Inr (enc plaintext k)
       \<and> encryptData enc (Some k) plaintext key = Inr (enc plaintext k)
       \<and> encryptPrivateKey enc (Some k) privateKey = Inr (enc privateKey k)
       \<and> decryptPrivateKey dec (Some k) encryptedKey
           = (case dec encryptedKey k of None \<Rightarrow> Inl MalformedData | Some plain \<Rightarrow> Inr plain)"
  using assms
  by (auto simp: encryptData_def encryptPrivateKey_def decryptPrivateKey_def or_else_def)

theorem key_material_required_witness:
  "encryptData (@) None ''token'' None = Inl ConfigurationError
   \<and> encryptPrivateKey (@) (Some []) ''private'' = Inl ConfigurationError
   \<and> encryptData (@) (Some ''configured'') ''token'' (Some []) = Inr ''tokenconfigured''"
  using key_material_required[of None None "''configured''" "(@)" "''token''" "''private''"]
    key_material_required[of "Some []" "Some []" "''configured''" "(@)" "''token''" "''private''"]
  by simp

text \<open>
  C8 as stated fails for \<^verbatim>\<open>encryptData\<close> called with a key: without \<^verbatim>\<open>ENCRYPTION_KEY\<close> it
  returns a ciphertext, computed with the key of the caller.
\<close>

theorem caller_key_counterexample:
  "encryptData (@) None ''token'' (Some ''caller-key'') = Inr ''tokencaller-key''"
  by (simp add: encryptData_def or_else_def)

section \<open>The cleanup sweep\<close>

lemma cleanup_rate_limits:
  "rateLimits (cleanupSecurityData now w) key =
     (case rateLimits w key of
        None \<Rightarrow> None
      | Some limit \<Rightarrow> if resetTime limit < now then None else Some limit)"
  by (simp add: cleanupSecurityData_def Let_def)

lemma cleanup_failed_attempts:
  "failedAttempts (cleanupSecurityData now w) key =
     (case failedAttempts w key of
        None \<Rightarrow> None
      | Some n \<Rightarrow> if n < now - 3600000 then None else Some n)"
  by (simp add: cleanupSecurityData_def Let_def)

text \<open>
  C9. The sweep reads the stored attempt count as if it were a time: an entry is removed
  when its count is below \<open>now - 3600000\<close>. A failed attempt recorded one millisecond
  before the sweep is removed.
\<close>

theorem cleanup_drops_recent_attempt:
  "failedAttempts (snd (recordFailedAttempt id recentAmbient ''bob'' ''9.9.9.9'' initialWorld))
      (compositeKey ''bob'' ''9.9.9.9'') = Some 1
   \<and> failedAttempts
       (cleanupSecurityData 1700000000001
          (snd (recordFailedAttempt id recentAmbient ''bob'' ''9.9.9.9'' initialWorld)))
      (compositeKey ''bob'' ''9.9.9.9'') = None"
  by (simp add: cleanup_failed_attempts recordFailedAttempt_effect get_or_zero_def initialWorld_def)

end
